theory Spec2Isabelle
  imports Main "HOL-Library.Word"
begin

section \<open>Errors\<close>

text \<open>
  Go's \<open>error\<close> values, as far as the code under study tells them apart.
  \<^item> \<open>HcsError n\<close>: a \<open>*hcsshim.HcsError\<close> whose \<open>Err\<close> is the Win32 error
    \<open>syscall.Errno(n)\<close> (a \<open>uintptr\<close>);
  \<^item> \<open>NumError s\<close>: what \<open>strconv.Atoi\<close> returns on the input \<open>s\<close>;
  \<^item> \<open>Errorf fmt args\<close>: an error built here by \<open>fmt.Errorf\<close> or \<open>errors.New\<close>;
  \<^item> \<open>ExternalError m\<close>: any other error a collaborator hands back;
  \<^item> \<open>NotFound id\<close>: the error of a lookup that finds nothing under \<open>id\<close>;
  \<^item> \<open>Panic m\<close>: a run-time panic (nil pointer dereference).
\<close>

datatype error =
    HcsError "64 word"
  | NumError string
  | Errorf string "fmtarg list"
  | ExternalError string
  | NotFound string
  | Panic string
and fmtarg = ArgStr string | ArgErr error | ArgInt int

section \<open>libcontainerd: the Windows client\<close>

subsection \<open>Constants of client\_windows.go\<close>

definition defaultContainerNAT :: string where
  "defaultContainerNAT = ''ContainerNAT''"

definition defaultOwner :: string where
  "defaultOwner = ''docker''"

definition CoEClassstring :: "64 word" where "CoEClassstring = 0x800401F3"
definition ErrorNoNetwork :: "64 word" where "ErrorNoNetwork = 1222"
definition ErrorBadPathname :: "64 word" where "ErrorBadPathname = 161"
definition ErrorInvalidObject :: "64 word" where "ErrorInvalidObject = 0x800710D8"

text \<open>Two constants of Go's \<open>syscall\<close> package for Windows, used by the retry loop.\<close>

definition ERROR_NOT_FOUND :: "64 word" where "ERROR_NOT_FOUND = 1168"
definition ERROR_FILE_NOT_FOUND :: "64 word" where "ERROR_FILE_NOT_FOUND = 2"

text \<open>\<open>syscall.SIGKILL\<close>.\<close>

definition SIGKILL :: int where "SIGKILL = 9"

subsection \<open>The payload handed to the compute service\<close>

record layer =
  layer_ID :: string
  layer_Path :: string

record portBinding =
  Protocol :: string
  InternalPort :: int
  ExternalPort :: int

record natSettings =
  nat_Name :: string
  nat_PortBindings :: "portBinding list"

record networkConnection =
  NetworkName :: string
  EnableNat :: bool
  Nat :: natSettings

record networkSettings =
  ns_MacAddress :: string

record device =
  DeviceType :: string
  Connection :: "networkConnection option"
  Settings :: "networkSettings option"

record mappedDir =
  HostPath :: string
  ContainerPath :: string
  ReadOnly :: bool

record containerInit =
  SystemType :: string
  Name :: string
  Owner :: string
  IsDummy :: bool
  VolumePath :: string
  Devices :: "device list"
  IgnoreFlushesDuringBoot :: bool
  LayerFolderPath :: string
  Layers :: "layer list"
  ProcessorWeight :: "64 word"
  HostName :: string
  MappedDirectories :: "mappedDir list"
  SandboxPath :: string
  HvPartition :: bool

subsection \<open>The engine-side specification (package windowsoci, as Create reads it)\<close>

record Mount =
  Source :: string
  Destination :: string
  Readonly :: bool

text \<open>\<open>nat.PortBinding\<close>: one host address a container port is published on.\<close>

record PortBinding =
  HostIP :: string
  HostPort :: string

text \<open>
  \<open>Networking.PortBindings\<close> is a Go map from \<open>nat.Port\<close> (a string) to a slice of
  bindings; it is listed here in the order the \<open>range\<close> loop visits it.
\<close>

record Networking =
  Bridge :: string
  MacAddress :: string
  PortBindings :: "(string \<times> PortBinding list) list"

text \<open>Pointers that may be nil are options: \<open>Resources\<close>, \<open>CPU\<close>, \<open>Shares\<close>, \<open>HvRuntime\<close>.\<close>

record CPU =
  Shares :: "64 word option"

record Resources =
  res_CPU :: "CPU option"

record HvRuntime =
  ImagePath :: string

record Spec =
  Root_Path :: string
  Hostname :: string
  Mounts :: "Mount list"
  Process :: "string list"
  FirstStart :: bool
  LayerFolder :: string
  LayerPaths :: "string list"
  Windows_Resources :: "Resources option"
  Windows_HvRuntime :: "HvRuntime option"
  Windows_Networking :: "Networking option"

subsection \<open>Library functions Create calls\<close>

text \<open>
  \<open>strings.ToUpper\<close>, on the ASCII letters. No rune outside ASCII has an upper case among
  the letters of \<open>TCP\<close> and \<open>UDP\<close>, so the comparison Create makes is the same.
\<close>

definition upper_char :: "char \<Rightarrow> char" where
  "upper_char c =
     (let n = (of_char c :: nat) in if 97 \<le> n \<and> n \<le> 122 then char_of (n - 32) else c)"

definition ToUpper :: "string \<Rightarrow> string" where
  "ToUpper s = map upper_char s"

text \<open>\<open>strings.Replace(s, ":", "-", -1)\<close>.\<close>

definition replace_colons :: "string \<Rightarrow> string" where
  "replace_colons s = map (\<lambda>c. if c = CHR '':'' then CHR ''-'' else c) s"

text \<open>
  \<open>strconv.Atoi\<close>: an optional sign, then one or more decimal digits, and the value has
  to fit Go's 64-bit \<open>int\<close>.
\<close>

definition is_digit :: "char \<Rightarrow> bool" where
  "is_digit c = (let n = (of_char c :: nat) in 48 \<le> n \<and> n \<le> 57)"

fun digits_value :: "int \<Rightarrow> string \<Rightarrow> int" where
  "digits_value acc [] = acc"
| "digits_value acc (c # cs) = digits_value (acc * 10 + (of_char c - 48)) cs"

definition Atoi :: "string \<Rightarrow> error + int" where
  "Atoi s =
     (let neg = (case s of [] \<Rightarrow> False | c # _ \<Rightarrow> c = CHR ''-'');
          ds = (case s of [] \<Rightarrow> []
                | c # r \<Rightarrow> if c = CHR ''-'' \<or> c = CHR ''+'' then r else s)
      in if ds = [] then Inl (NumError s)
         else if list_ex (\<lambda>c. \<not> is_digit c) ds then Inl (NumError s)
         else (let n = digits_value 0 ds
               in if neg then (if 2 ^ 63 < n then Inl (NumError s) else Inr (- n))
                  else (if 2 ^ 63 \<le> n then Inl (NumError s) else Inr n)))"

text \<open>
  Modelled from the spec: \<open>Proto\<close> and \<open>Port\<close> of \<open>nat.Port\<close> (package pkg/nat is not among
  the sources). The spec writes a container port as \<open>80/tcp\<close>: the port number, a slash,
  the protocol.
\<close>

definition Port :: "string \<Rightarrow> string" where
  "Port p = takeWhile (\<lambda>c. c \<noteq> CHR ''/'') p"

definition Proto :: "string \<Rightarrow> string" where
  "Proto p = drop 1 (dropWhile (\<lambda>c. c \<noteq> CHR ''/'') p)"

subsection \<open>What Create is given besides its arguments\<close>

text \<open>
  The collaborators of Create that are not in this package, as functions of what Create
  passes them:
  \<^item> \<open>IsTP4\<close>: \<open>hcsshim.IsTP4()\<close>;
  \<^item> \<open>filepath_Dir\<close>, \<open>filepath_Split_file\<close> (the file part of \<open>filepath.Split\<close>);
  \<^item> \<open>NameToGuid\<close>: \<open>hcsshim.NameToGuid\<close> followed by \<open>ToString\<close>;
  \<^item> \<open>json_Marshal\<close>: \<open>json.Marshal\<close> of the payload;
  \<^item> \<open>CreateComputeSystem n id configuration\<close>: what the \<open>n\<close>-th call (from 0) of
    \<open>hcsshim.CreateComputeSystem\<close> in this Create returns, \<open>None\<close> for nil;
  \<^item> \<open>container_start\<close>: what \<open>container.start()\<close> returns.
\<close>

record env =
  IsTP4 :: bool
  filepath_Dir :: "string \<Rightarrow> string"
  filepath_Split_file :: "string \<Rightarrow> string"
  NameToGuid :: "string \<Rightarrow> error + string"
  json_Marshal :: "containerInit \<Rightarrow> error + string"
  CreateComputeSystem :: "nat \<Rightarrow> string \<Rightarrow> string \<Rightarrow> error option"
  container_start :: "string \<Rightarrow> error option"

text \<open>
  The calls Create and Signal make on the runtime and on the client, in the order they are
  made. \<open>Debugln\<close> and \<open>Debugf\<close> lines are left out.
\<close>

datatype call =
    CallCreateComputeSystem string string
  | CallSleepMs nat
  | CallWarnf string
  | CallErrorf string
  | CallContainerStart string
  | CallDeleteContainer string
  | CallTerminateComputeSystem string
  | CallTerminateProcessInComputeSystem string "32 word"
  | CallShutdownComputeSystem string

subsection \<open>Create: building the payload\<close>

text \<open>Go's variable \<open>id\<close> is written \<open>cid\<close>, as \<open>id\<close> is the identity function of HOL.\<close>

text \<open>The loop over \<open>spec.Windows.LayerPaths\<close>.\<close>

fun layers_loop :: "env \<Rightarrow> string list \<Rightarrow> layer list \<Rightarrow> error + layer list" where
  "layers_loop ev [] acc = Inr acc"
| "layers_loop ev (layerPath # rest) acc =
     (case NameToGuid ev (filepath_Split_file ev layerPath) of
        Inl err \<Rightarrow> Inl err
      | Inr g \<Rightarrow> layers_loop ev rest (acc @ [\<lparr>layer_ID = g, layer_Path = layerPath\<rparr>]))"

definition mounts_to_mds :: "Mount list \<Rightarrow> mappedDir list" where
  "mounts_to_mds ms =
     map (\<lambda>m. \<lparr>HostPath = Source m, ContainerPath = Destination m, ReadOnly = Readonly m\<rparr>) ms"

text \<open>The inner loop \<open>for _, v2 := range v\<close> of the port-binding translation.\<close>

fun host_bindings_loop ::
  "string \<Rightarrow> string \<Rightarrow> PortBinding list \<Rightarrow> portBinding list \<Rightarrow> error + portBinding list" where
  "host_bindings_loop i proto [] pbs = Inr pbs"
| "host_bindings_loop i proto (v2 # rest) pbs =
     (if length (HostIP v2) \<noteq> 0 then
        Inl (Errorf ''Windows does not support host IP addresses in NAT settings'' [])
      else case Atoi (HostPort v2) of
        Inl err \<Rightarrow>
          Inl (Errorf ''invalid container port %s: %s'' [ArgStr (HostPort v2), ArgErr err])
      | Inr ePort \<Rightarrow>
         (case Atoi (Port i) of
            Inl err \<Rightarrow>
              Inl (Errorf ''invalid internal port %s: %s'' [ArgStr (Port i), ArgErr err])
          | Inr iPort \<Rightarrow>
              if iPort < 0 \<or> iPort > 65535 \<or> ePort < 0 \<or> ePort > 65535 then
                Inl (Errorf ''specified NAT port is not in allowed range'' [])
              else host_bindings_loop i proto rest
                     (pbs @ [\<lparr>Protocol = proto, InternalPort = iPort, ExternalPort = ePort\<rparr>])))"

text \<open>The outer loop \<open>for i, v := range spec.Windows.Networking.PortBindings\<close>.\<close>

fun port_bindings_loop ::
  "(string \<times> PortBinding list) list \<Rightarrow> portBinding list \<Rightarrow> error + portBinding list" where
  "port_bindings_loop [] pbs = Inr pbs"
| "port_bindings_loop ((i, v) # rest) pbs =
     (let proto = ToUpper (Proto i) in
      if proto \<noteq> ''TCP'' \<and> proto \<noteq> ''UDP'' then
        Inl (Errorf ''invalid protocol %s'' [ArgStr (Proto i)])
      else if length v > 1 then
        Inl (Errorf ''Windows does not support more than one host port in NAT settings'' [])
      else case host_bindings_loop i proto v pbs of
        Inl err \<Rightarrow> Inl err
      | Inr pbs' \<Rightarrow> port_bindings_loop rest pbs')"

text \<open>The network device of the payload (lines 156 to 213), for a non-nil \<open>Networking\<close>.\<close>

definition network_device :: "Networking \<Rightarrow> error + device" where
  "network_device nw =
     (case port_bindings_loop (PortBindings nw) [] of
        Inl err \<Rightarrow> Inl err
      | Inr pbs \<Rightarrow>
          Inr \<lparr>DeviceType = ''Network'',
               Connection = Some \<lparr>NetworkName = Bridge nw, EnableNat = False,
                                  Nat = \<lparr>nat_Name = defaultContainerNAT,
                                         nat_PortBindings = pbs\<rparr>\<rparr>,
               Settings = (if MacAddress nw \<noteq> []
                           then Some \<lparr>ns_MacAddress = replace_colons (MacAddress nw)\<rparr>
                           else None)\<rparr>)"

text \<open>
  Lines 108 to 216 of Create: the payload \<open>cu\<close>, or the error Create returns before it
  has talked to the runtime.
\<close>

definition build_cu :: "env \<Rightarrow> string \<Rightarrow> Spec \<Rightarrow> error + containerInit" where
  "build_cu ev cid spec =
     (let cu0 = \<lparr>SystemType = ''Container'', Name = cid, Owner = defaultOwner,
                 IsDummy = False, VolumePath = Root_Path spec, Devices = [],
                 IgnoreFlushesDuringBoot = FirstStart spec,
                 LayerFolderPath = LayerFolder spec, Layers = [], ProcessorWeight = 0,
                 HostName = Hostname spec, MappedDirectories = [], SandboxPath = [],
                 HvPartition = False\<rparr>;
          weight = (case Windows_Resources spec of
                      None \<Rightarrow> Inr cu0
                    | Some r \<Rightarrow>
                       (case res_CPU r of
                          None \<Rightarrow> Inr cu0
                        | Some cpu \<Rightarrow>
                           (case Shares cpu of
                              None \<Rightarrow> Inl (Panic ''nil pointer dereference'')
                            | Some w \<Rightarrow> Inr (cu0\<lparr>ProcessorWeight := w\<rparr>))))
      in case weight of
        Inl err \<Rightarrow> Inl err
      | Inr cu1 \<Rightarrow>
         (let cu2 = (case Windows_HvRuntime spec of
                       None \<Rightarrow> cu1
                     | Some hv \<Rightarrow> cu1\<lparr>HvPartition := length (ImagePath hv) > 0\<rparr>);
              cu3 = (if HvPartition cu2
                     then cu2\<lparr>SandboxPath := filepath_Dir ev (LayerFolder spec)\<rparr>
                     else cu2\<lparr>VolumePath := Root_Path spec,
                              LayerFolderPath := LayerFolder spec\<rparr>)
          in case layers_loop ev (LayerPaths spec) (Layers cu3) of
            Inl err \<Rightarrow> Inl err
          | Inr ls \<Rightarrow>
             (let cu4 = cu3\<lparr>Layers := ls, MappedDirectories := mounts_to_mds (Mounts spec)\<rparr>
              in case Windows_Networking spec of
                None \<Rightarrow> Inr cu4
              | Some nw \<Rightarrow>
                 (case network_device nw of
                    Inl err \<Rightarrow> Inl err
                  | Inr dev \<Rightarrow> Inr (cu4\<lparr>Devices := Devices cu4 @ [dev]\<rparr>)))))"

subsection \<open>Create: talking to the runtime\<close>

text \<open>The error codes the retry loop of Create goes on after (lines 241 to 246).\<close>

definition transient_codes :: "64 word list" where
  "transient_codes = [ERROR_NOT_FOUND, ERROR_FILE_NOT_FOUND, ErrorNoNetwork,
                      ErrorBadPathname, CoEClassstring, ErrorInvalidObject]"

text \<open>
  How the retry loop ends: \<open>Returned err\<close> is the \<open>return err\<close> inside it, \<open>Left err\<close>
  is leaving it by \<open>break\<close> or because \<open>i\<close> reached \<open>maxAttempts\<close>, with the value the
  variable \<open>err\<close> then has.
\<close>

datatype loop_end = Returned error | Left "error option"

text \<open>
  The loop \<open>for i := 0; i < maxAttempts; i++\<close>; the first argument is the number of rounds
  still to go, \<open>maxAttempts - i\<close>.
\<close>

fun retry_loop ::
  "nat \<Rightarrow> env \<Rightarrow> string \<Rightarrow> string \<Rightarrow> nat \<Rightarrow> error option \<Rightarrow> call list
     \<Rightarrow> loop_end \<times> call list" where
  "retry_loop 0 ev cid configuration i err tr = (Left err, tr)"
| "retry_loop (Suc k) ev cid configuration i err tr =
     (let tr1 = tr @ [CallCreateComputeSystem cid configuration] in
      case CreateComputeSystem ev i cid configuration of
        None \<Rightarrow> (Left None, tr1)
      | Some e \<Rightarrow>
         (case e of
            HcsError code \<Rightarrow>
              if code \<in> set transient_codes then
                retry_loop k ev cid configuration (Suc i) (Some e)
                  (tr1 @ [CallWarnf ''Invoking Windows TP4 retry hack (%d of %d)'',
                          CallSleepMs 50])
              else (Returned e, tr1)
          | _ \<Rightarrow> retry_loop k ev cid configuration (Suc i) (Some e) tr1))"

definition maxAttempts :: nat where
  "maxAttempts = 5"

text \<open>
  Lines 256 to 265: the container object is made, the deferred function is registered and
  \<open>container.start()\<close> is returned. The deferred function reads the variable \<open>err\<close> of
  Create, which \<open>return container.start()\<close> does not assign (the result of Create has
  no name); \<open>err\<close> is what the creation left in it.
\<close>

definition start_container ::
  "env \<Rightarrow> string \<Rightarrow> error option \<Rightarrow> call list \<Rightarrow> error option \<times> call list" where
  "start_container ev cid err tr =
     (let r = container_start ev cid;
          tr1 = tr @ [CallContainerStart cid]
      in (r, if err \<noteq> None then tr1 @ [CallDeleteContainer cid] else tr1))"

definition Create :: "env \<Rightarrow> string \<Rightarrow> Spec \<Rightarrow> error option \<times> call list" where
  "Create ev cid spec =
     (case build_cu ev cid spec of
        Inl err \<Rightarrow> (Some err, [])
      | Inr cu \<Rightarrow>
         (case json_Marshal ev cu of
            Inl err \<Rightarrow> (Some err, [])
          | Inr configuration \<Rightarrow>
              if \<not> IsTP4 ev then
                (case CreateComputeSystem ev 0 cid configuration of
                   Some err \<Rightarrow> (Some err, [CallCreateComputeSystem cid configuration])
                 | None \<Rightarrow>
                     start_container ev cid None [CallCreateComputeSystem cid configuration])
              else
                (case retry_loop maxAttempts ev cid configuration 0 None [] of
                   (Returned err, tr) \<Rightarrow> (Some err, tr)
                 | (Left err, tr) \<Rightarrow> start_container ev cid err tr)))"

subsection \<open>Signal\<close>

text \<open>The client's container handle; Signal reads its \<open>systemPid\<close> (a \<open>uint32\<close>).\<close>

record container =
  systemPid :: "32 word"

text \<open>The client and its table of containers (\<open>clientCommon\<close>), a Go map.\<close>

record client =
  cl_containers :: "string \<rightharpoonup> container"

text \<open>
  Modelled from the spec: \<open>getContainer\<close> of \<open>clientCommon\<close> (client.go is not among the
  sources). The spec: Signal "looks up the container handle under its lock; fails with
  NotFound if absent".
\<close>

definition getContainer :: "client \<Rightarrow> string \<Rightarrow> error + container" where
  "getContainer c cid =
     (case cl_containers c cid of None \<Rightarrow> Inl (NotFound cid) | Some cont \<Rightarrow> Inr cont)"

text \<open>What the three runtime calls of Signal return, \<open>None\<close> for nil.\<close>

record signal_env =
  TerminateComputeSystem :: "string \<Rightarrow> error option"
  TerminateProcessInComputeSystem :: "string \<Rightarrow> 32 word \<Rightarrow> error option"
  ShutdownComputeSystem :: "string \<Rightarrow> error option"

text \<open>A logging call made only when the call before it failed.\<close>

definition log_if_failed :: "error option \<Rightarrow> call \<Rightarrow> call list" where
  "log_if_failed r l = (case r of None \<Rightarrow> [] | Some err \<Rightarrow> [l])"

text \<open>
  Signal (lines 273 to 311). The per-container lock it takes and releases is not part of
  this sequential model.
\<close>

definition Signal :: "signal_env \<Rightarrow> client \<Rightarrow> string \<Rightarrow> int \<Rightarrow> error option \<times> call list" where
  "Signal ev c cid sig =
     (case getContainer c cid of
        Inl err \<Rightarrow> (Some err, [])
      | Inr cont \<Rightarrow>
          if sig = SIGKILL then
            (None, [CallTerminateComputeSystem cid]
                   @ log_if_failed (TerminateComputeSystem ev cid)
                       (CallErrorf ''Failed to terminate %s - %q''))
          else
            (None, [CallTerminateProcessInComputeSystem cid (systemPid cont)]
                   @ log_if_failed (TerminateProcessInComputeSystem ev cid (systemPid cont))
                       (CallWarnf ''Failed to terminate pid %d in %s: %q'')
                   @ [CallShutdownComputeSystem cid]
                   @ log_if_failed (ShutdownComputeSystem ev cid)
                       (CallErrorf ''Failed to shutdown %s - %q'')))"

text \<open>The calls of a trace that reach the runtime: everything but the log lines.\<close>

fun is_log :: "call \<Rightarrow> bool" where
  "is_log (CallWarnf m) = True"
| "is_log (CallErrorf m) = True"
| "is_log other = False"

definition runtime_calls :: "call list \<Rightarrow> call list" where
  "runtime_calls tr = filter (\<lambda>c. \<not> is_log c) tr"

fun is_create :: "call \<Rightarrow> bool" where
  "is_create (CallCreateComputeSystem cid configuration) = True"
| "is_create other = False"

section \<open>daemon: the monitor\<close>

subsection \<open>Containers, exec sessions and their streams\<close>

text \<open>
  Modelled from the spec: \<open>runconfig.StreamConfig\<close> (streams.go is not among the sources).
  The spec: it "holds up to three directions (stdin, stdout, stderr), each optionally
  present" and "a mutable pending copy operations counter". \<open>has_stdin\<close> says that
  \<open>Stdin()\<close> is not nil, \<open>pending\<close> is the counter that \<open>Add\<close> and \<open>Done\<close> move, and
  \<open>streams_closed\<close> that \<open>CloseStreams\<close> was called.
\<close>

record StreamConfig =
  has_stdin :: bool
  pending :: int
  streams_closed :: bool

text \<open>\<open>exec.Config\<close>, as StateChanged uses it. \<open>ExitCode\<close> is a pointer, nil at first.\<close>

record ExecConfig =
  ec_ExitCode :: "int option"
  ec_Running :: bool
  ec_StreamConfig :: StreamConfig

text \<open>
  \<open>container.Container\<close>, as the monitor uses it. \<open>Paused\<close>, \<open>RestartCount\<close> (a Go
  \<open>int\<close>, 64 bits), \<open>HasBeenManuallyStopped\<close>, \<open>ExecCommands\<close>, \<open>StreamConfig\<close>,
  \<open>Config.Tty\<close> and \<open>ID\<close> are the fields monitor.go reads and writes; \<open>Running\<close>,
  \<open>Restarting\<close>, \<open>Pid\<close>, \<open>Initial\<close> and \<open>c_ExitCode\<close> are what its calls of
  \<open>SetRunning\<close>, \<open>SetRestarting\<close>, \<open>SetStopped\<close> and \<open>Reset\<close> change.
  \<open>ExecCommands\<close> lists the ids of the exec sessions in the container's own store; the
  \<open>exec.Config\<close> objects themselves are shared with the daemon's store and live in
  \<open>execConfigs\<close> below.
\<close>

record Container =
  c_ID :: string
  Running :: bool
  Restarting :: bool
  Paused :: bool
  Pid :: int
  Initial :: bool
  c_ExitCode :: int
  RestartCount :: "64 word"
  HasBeenManuallyStopped :: bool
  ExecCommands :: "string list"
  c_StreamConfig :: StreamConfig
  Tty :: bool

text \<open>
  What the monitor does to the world outside the container objects, in order.
  A container argument is the state the container has when the call is made.
  The attribute of a \<open>die\<close> event is the number that \<open>strconv.Itoa\<close> renders.
\<close>

datatype effect =
    EvLogContainerEvent Container string
  | EvLogContainerEventWithAttributes Container string "(string \<times> int) list"
  | EvWarnf string
  | EvErrorf string
  | EvWait string
  | EvCleanup Container
  | EvToDisk Container
  | EvStartLogging Container
  | EvCloseStreams string
  | EvPipeClose nat

text \<open>Whose \<open>StreamConfig\<close> the variable \<open>s\<close> of AttachStreams points to.\<close>

datatype sref = OfContainer string | OfExec string

text \<open>
  The goroutines AttachStreams starts: the copy into the runtime's stdin pipe, and the
  copies out of its stdout and stderr pipes (made by the local function \<open>copy\<close>).
\<close>

datatype task = StdinCopy nat | OutputCopy sref nat

text \<open>
  The daemon: the registry \<open>daemon.containers\<close>, the \<open>exec.Config\<close> objects by id, what
  \<open>ToDisk\<close> has written, the effects so far and the goroutines that are running.
\<close>

record Daemon =
  containers :: "string \<rightharpoonup> Container"
  execConfigs :: "string \<rightharpoonup> ExecConfig"
  disk :: "string \<rightharpoonup> Container"
  events :: "effect list"
  tasks :: "task list"

text \<open>
  What one call of the monitor finds outside: \<open>runtime.GOOS\<close> and what \<open>ToDisk\<close>,
  \<open>CloseStreams\<close> and \<open>StartLogging\<close> return in it (\<open>None\<close> for nil).
\<close>

record world =
  GOOS :: string
  ToDisk_result :: "error option"
  CloseStreams_result :: "error option"
  StartLogging_result :: "error option"

subsection \<open>Events from libcontainerd\<close>

text \<open>
  The constants of \<open>libcontainerd\<close> that \<open>StateInfo.State\<close> takes; \<open>StateOther\<close> is any
  value the \<open>switch\<close> of StateChanged has no case for.
\<close>

datatype state =
    StateStart | StatePause | StateResume | StateExit | StateRestart | StateRestore
  | StateExitProcess | StateOOM | StateOther

record StateInfo =
  State :: state
  si_Pid :: "32 word"
  si_ExitCode :: "32 word"
  ProcessID :: string

subsection \<open>Methods of the container that monitor.go calls\<close>

record ExitStatus =
  es_ExitCode :: int

text \<open>
  Modelled from the spec: \<open>platformConstructExitStatus\<close> (monitor\_windows.go and
  monitor\_linux.go are not among the sources), the "platform-normalized exit status" of
  the event.
\<close>

definition platformConstructExitStatus :: "StateInfo \<Rightarrow> ExitStatus" where
  "platformConstructExitStatus e = \<lparr>es_ExitCode = uint (si_ExitCode e)\<rparr>"

text \<open>
  Modelled from the spec: \<open>Reset\<close> of the container (package container is not among the
  sources). The spec: on a failed persist "the state is rolled back to non-running"; on
  Exit and Restart it is the step that resets the "runtime-specific transient fields".
\<close>

definition Reset :: "Container \<Rightarrow> Container" where
  "Reset c = c\<lparr>Running := False\<rparr>"

text \<open>
  Modelled from the spec: \<open>SetRunning\<close>. The spec: it "records the runtime-assigned
  process id and marks the container running"; a Restore "additionally marks it as a
  non-fresh start".
\<close>

definition SetRunning :: "int \<Rightarrow> bool \<Rightarrow> Container \<Rightarrow> Container" where
  "SetRunning pid initial c = c\<lparr>Running := True, Pid := pid, Initial := initial\<rparr>"

text \<open>
  Modelled from the spec: \<open>SetRestarting\<close> marks the container "restarting (not
  terminally stopped)", with the exit status of the event.
\<close>

definition SetRestarting :: "ExitStatus \<Rightarrow> Container \<Rightarrow> Container" where
  "SetRestarting es c = c\<lparr>Restarting := True, c_ExitCode := es_ExitCode es\<rparr>"

text \<open>
  Modelled from the spec: \<open>SetStopped\<close> records "the container as stopped with the
  platform-normalized exit status".
\<close>

definition SetStopped :: "ExitStatus \<Rightarrow> Container \<Rightarrow> Container" where
  "SetStopped es c = c\<lparr>Running := False, Restarting := False, c_ExitCode := es_ExitCode es\<rparr>"

text \<open>
  Modelled from the spec: \<open>ToDisk\<close> persists "container state to durable storage". It is
  handed the container as it is at the call; when it fails, the stored state stays what it
  was.
\<close>

definition ToDisk :: "world \<Rightarrow> Container \<Rightarrow> Daemon \<Rightarrow> error option \<times> Daemon" where
  "ToDisk w c d =
     (case ToDisk_result w of
        None \<Rightarrow> (None, d\<lparr>disk := (disk d)(c_ID c \<mapsto> c), events := events d @ [EvToDisk c]\<rparr>)
      | Some err \<Rightarrow> (Some err, d\<lparr>events := events d @ [EvToDisk c]\<rparr>))"

text \<open>Writing through the pointer \<open>c\<close>: the registry holds the changed container.\<close>

definition put_container :: "string \<Rightarrow> Container \<Rightarrow> Daemon \<Rightarrow> Daemon" where
  "put_container cid c d = d\<lparr>containers := (containers d)(cid \<mapsto> c)\<rparr>"

definition emit :: "effect list \<Rightarrow> Daemon \<Rightarrow> Daemon" where
  "emit es d = d\<lparr>events := events d @ es\<rparr>"

text \<open>
  Modelled from the spec: \<open>ExecCommands.Get\<close> (the exec store is not among the sources)
  "looks up the exec session by id in the container's exec table"; nil when absent.
\<close>

definition ExecCommands_Get :: "Daemon \<Rightarrow> Container \<Rightarrow> string \<Rightarrow> ExecConfig option" where
  "ExecCommands_Get d c pid =
     (if pid \<in> set (ExecCommands c) then execConfigs d pid else None)"

text \<open>
  Modelled from the spec: \<open>ExecCommands.Delete\<close> "removes the session from the
  container's table"; the object stays in the daemon's store.
\<close>

definition ExecCommands_Delete :: "string \<Rightarrow> Container \<Rightarrow> Container" where
  "ExecCommands_Delete pid c = c\<lparr>ExecCommands := removeAll pid (ExecCommands c)\<rparr>"

subsection \<open>StateChanged\<close>

text \<open>
  The branches of the \<open>switch\<close> of StateChanged, each on the container \<open>c\<close> found under
  \<open>cid\<close> (Go's \<open>id\<close>). The container's lock, taken by some branches, is not part of this
  sequential model, and \<open>Debugln\<close> lines are left out.
\<close>

definition die_attributes :: "StateInfo \<Rightarrow> (string \<times> int) list" where
  "die_attributes e = [(''exitCode'', uint (si_ExitCode e))]"

definition handle_OOM :: "world \<Rightarrow> Daemon \<Rightarrow> Container \<Rightarrow> error option \<times> Daemon" where
  "handle_OOM w d c =
     (if GOOS w = ''windows'' then
        (Some (Errorf
           ''Received StateOOM from libcontainerd on Windows. This should never happen.'' []),
         d)
      else (None, emit [EvLogContainerEvent c ''oom''] d))"

definition handle_Exit ::
  "world \<Rightarrow> Daemon \<Rightarrow> string \<Rightarrow> Container \<Rightarrow> StateInfo \<Rightarrow> error option \<times> Daemon" where
  "handle_Exit w d cid c e =
     (let c1 = Reset c;
          c2 = SetStopped (platformConstructExitStatus e) c1;
          d1 = emit [EvWait (c_ID c),
                     EvLogContainerEventWithAttributes c2 ''die'' (die_attributes e),
                     EvCleanup c2] (put_container cid c2 d)
      in ToDisk w c2 d1)"

definition handle_Restart ::
  "world \<Rightarrow> Daemon \<Rightarrow> string \<Rightarrow> Container \<Rightarrow> StateInfo \<Rightarrow> error option \<times> Daemon" where
  "handle_Restart w d cid c e =
     (let c1 = Reset c;
          c2 = c1\<lparr>RestartCount := RestartCount c1 + 1\<rparr>;
          c3 = SetRestarting (platformConstructExitStatus e) c2;
          d1 = emit [EvLogContainerEventWithAttributes c3 ''die'' (die_attributes e)]
                 (put_container cid c3 d)
      in ToDisk w c3 d1)"

definition handle_ExitProcess ::
  "world \<Rightarrow> Daemon \<Rightarrow> string \<Rightarrow> Container \<Rightarrow> StateInfo \<Rightarrow> error option \<times> Daemon" where
  "handle_ExitProcess w d cid c e =
     (case ExecCommands_Get d c (ProcessID e) of
        Some execConfig \<Rightarrow>
          (let ec1 = execConfig\<lparr>ec_ExitCode := Some (uint (si_ExitCode e)),
                                ec_Running := False\<rparr>;
               ec2 = ec1\<lparr>ec_StreamConfig :=
                           (ec_StreamConfig ec1)\<lparr>streams_closed :=
                                                     (CloseStreams_result w = None)\<rparr>\<rparr>;
               d1 = emit ([EvWait (ProcessID e), EvCloseStreams (ProcessID e)]
                          @ (case CloseStreams_result w of
                               None \<Rightarrow> []
                             | Some err \<Rightarrow> [EvErrorf ''%s: %s''])) d;
               d2 = d1\<lparr>execConfigs := (execConfigs d1)(ProcessID e \<mapsto> ec2)\<rparr>
           in (None, put_container cid (ExecCommands_Delete (ProcessID e) c) d2))
      | None \<Rightarrow>
          (None, emit [EvWarnf ''Ignoring StateExitProcess for %v but no exec command found''] d))"

definition handle_Start ::
  "world \<Rightarrow> Daemon \<Rightarrow> string \<Rightarrow> Container \<Rightarrow> StateInfo \<Rightarrow> error option \<times> Daemon" where
  "handle_Start w d cid c e =
     (let c1 = SetRunning (uint (si_Pid e)) (State e = StateStart) c;
          c2 = c1\<lparr>HasBeenManuallyStopped := False\<rparr>
      in case ToDisk w c2 (put_container cid c2 d) of
           (Some err, d1) \<Rightarrow> (Some err, put_container cid (Reset c2) d1)
         | (None, d1) \<Rightarrow> (None, d1))"

definition handle_Pause ::
  "Daemon \<Rightarrow> string \<Rightarrow> Container \<Rightarrow> bool \<Rightarrow> string \<Rightarrow> error option \<times> Daemon" where
  "handle_Pause d cid c p action =
     (let c1 = c\<lparr>Paused := p\<rparr>
      in (None, emit [EvLogContainerEvent c1 action] (put_container cid c1 d)))"

definition StateChanged ::
  "world \<Rightarrow> Daemon \<Rightarrow> string \<Rightarrow> StateInfo \<Rightarrow> error option \<times> Daemon" where
  "StateChanged w d cid e =
     (case containers d cid of
        None \<Rightarrow> (Some (Errorf ''no such container: %s'' [ArgStr cid]), d)
      | Some c \<Rightarrow>
         (case State e of
            StateOOM \<Rightarrow> handle_OOM w d c
          | StateExit \<Rightarrow> handle_Exit w d cid c e
          | StateRestart \<Rightarrow> handle_Restart w d cid c e
          | StateExitProcess \<Rightarrow> handle_ExitProcess w d cid c e
          | StateStart \<Rightarrow> handle_Start w d cid c e
          | StateRestore \<Rightarrow> handle_Start w d cid c e
          | StatePause \<Rightarrow> handle_Pause d cid c True ''pause''
          | StateResume \<Rightarrow> handle_Pause d cid c False ''unpause''
          | StateOther \<Rightarrow> (None, d)))"

text \<open>
  Events delivered one after another for the container \<open>cid\<close>, each with the world it
  finds; what a call returns goes to libcontainerd, the daemon goes on with the state the
  call left.
\<close>

fun deliver :: "Daemon \<Rightarrow> string \<Rightarrow> (world \<times> StateInfo) list \<Rightarrow> Daemon" where
  "deliver d cid [] = d"
| "deliver d cid ((w, e) # rest) = deliver (snd (StateChanged w d cid e)) cid rest"

subsection \<open>AttachStreams\<close>

text \<open>\<open>libcontainerd.IOPipe\<close>: three pipes of the runtime, each possibly nil.\<close>

record IOPipe =
  Stdin :: "nat option"
  Stdout :: "nat option"
  Stderr :: "nat option"

text \<open>
  Modelled from the spec: \<open>getExecConfig\<close> of the daemon (exec.go is not among the
  sources), "the engine's exec-session lookup", which fails when the id does not resolve.
\<close>

definition getExecConfig :: "Daemon \<Rightarrow> string \<Rightarrow> error + ExecConfig" where
  "getExecConfig d cid =
     (case execConfigs d cid of None \<Rightarrow> Inl (NotFound cid) | Some ec \<Rightarrow> Inr ec)"

definition get_stream :: "Daemon \<Rightarrow> sref \<Rightarrow> StreamConfig option" where
  "get_stream d r =
     (case r of
        OfContainer cid \<Rightarrow> map_option c_StreamConfig (containers d cid)
      | OfExec xid \<Rightarrow> map_option ec_StreamConfig (execConfigs d xid))"

text \<open>\<open>s.Add(n)\<close> and \<open>s.Done()\<close> (which is \<open>Add(-1)\<close>), through the pointer \<open>s\<close>.\<close>

definition stream_Add :: "sref \<Rightarrow> int \<Rightarrow> Daemon \<Rightarrow> Daemon" where
  "stream_Add r n d =
     (case r of
        OfContainer cid \<Rightarrow>
          (case containers d cid of
             None \<Rightarrow> d
           | Some c \<Rightarrow>
               put_container cid
                 (c\<lparr>c_StreamConfig := (c_StreamConfig c)\<lparr>pending := pending (c_StreamConfig c) + n\<rparr>\<rparr>)
                 d)
      | OfExec xid \<Rightarrow>
          (case execConfigs d xid of
             None \<Rightarrow> d
           | Some ec \<Rightarrow>
               d\<lparr>execConfigs := (execConfigs d)(xid \<mapsto>
                    ec\<lparr>ec_StreamConfig :=
                         (ec_StreamConfig ec)\<lparr>pending := pending (ec_StreamConfig ec) + n\<rparr>\<rparr>)\<rparr>))"

definition spawn :: "task \<Rightarrow> Daemon \<Rightarrow> Daemon" where
  "spawn t d = d\<lparr>tasks := tasks d @ [t]\<rparr>"

text \<open>The local function \<open>copy\<close> (lines 161 to 174): \<open>s.Add(1)\<close>, then the goroutine.\<close>

definition copy_stream :: "sref \<Rightarrow> nat \<Rightarrow> Daemon \<Rightarrow> Daemon" where
  "copy_stream r p d = spawn (OutputCopy r p) (stream_Add r 1 d)"

text \<open>
  Lines 140 to 159, the stdin pipe: \<open>s\<close> is the stream configuration found, \<open>c\<close> the
  container or nil.
\<close>

definition wire_stdin :: "StreamConfig \<Rightarrow> Container option \<Rightarrow> IOPipe \<Rightarrow> Daemon \<Rightarrow> Daemon" where
  "wire_stdin s c iop d =
     (if has_stdin s then
        (case Stdin iop of Some p \<Rightarrow> spawn (StdinCopy p) d | None \<Rightarrow> d)
      else
        (case c of
           Some c' \<Rightarrow>
             if \<not> Tty c' then
               (case Stdin iop of Some p \<Rightarrow> emit [EvPipeClose p] d | None \<Rightarrow> d)
             else d
         | None \<Rightarrow> d))"

text \<open>Lines 176 to 185, the stdout and stderr pipes.\<close>

definition wire_outputs :: "sref \<Rightarrow> IOPipe \<Rightarrow> Daemon \<Rightarrow> Daemon" where
  "wire_outputs r iop d =
     (let d1 = (case Stdout iop of Some p \<Rightarrow> copy_stream r p d | None \<Rightarrow> d)
      in (case Stderr iop of Some p \<Rightarrow> copy_stream r p d1 | None \<Rightarrow> d1))"

definition AttachStreams :: "world \<Rightarrow> Daemon \<Rightarrow> string \<Rightarrow> IOPipe \<Rightarrow> error option \<times> Daemon" where
  "AttachStreams w d cid iop =
     (case containers d cid of
        None \<Rightarrow>
          (case getExecConfig d cid of
             Inl err \<Rightarrow> (Some (Errorf ''no such exec/container: %s'' [ArgStr cid]), d)
           | Inr ec \<Rightarrow>
               (None, wire_outputs (OfExec cid) iop
                        (wire_stdin (ec_StreamConfig ec) None iop d)))
      | Some c \<Rightarrow>
          (let d1 = emit [EvStartLogging c] d
           in case StartLogging_result w of
                Some err \<Rightarrow> (Some err, put_container cid (Reset c) d1)
              | None \<Rightarrow>
                  (None, wire_outputs (OfContainer cid) iop
                           (wire_stdin (c_StreamConfig c) (Some c) iop d1))))"

text \<open>
  A goroutine of AttachStreams running to its end. The stdin copy closes the runtime's
  stdin pipe and calls nothing of the stream configuration; an output copy logs a copy
  error if there was one and calls \<open>s.Done()\<close>, which panics on a counter that is not
  positive.
\<close>

definition finish :: "error option \<Rightarrow> task \<Rightarrow> Daemon \<Rightarrow> error + Daemon" where
  "finish copy_err t d =
     (case t of
        StdinCopy p \<Rightarrow> Inr (emit [EvPipeClose p] (d\<lparr>tasks := remove1 t (tasks d)\<rparr>))
      | OutputCopy r p \<Rightarrow>
          (case get_stream d r of
             None \<Rightarrow> Inl (Panic ''nil pointer dereference'')
           | Some s \<Rightarrow>
               if pending s \<le> 0 then Inl (Panic ''sync: negative WaitGroup counter'')
               else Inr (stream_Add r (- 1)
                          (emit (case copy_err of
                                   None \<Rightarrow> []
                                 | Some err \<Rightarrow> [EvErrorf ''%v stream copy error: %v''])
                             (d\<lparr>tasks := remove1 t (tasks d)\<rparr>)))))"

text \<open>Whether a pipe of the runtime has been closed by the daemon.\<close>

definition pipe_closed :: "Daemon \<Rightarrow> nat \<Rightarrow> bool" where
  "pipe_closed d p = (EvPipeClose p \<in> set (events d))"

section \<open>Inputs for the examples\<close>

definition example_spec :: Spec where
  "example_spec = \<lparr>Root_Path = ''C:/root'', Hostname = ''host'', Mounts = [], Process = [],
     FirstStart = False, LayerFolder = ''C:/layers/top'', LayerPaths = [],
     Windows_Resources = None, Windows_HvRuntime = None, Windows_Networking = None\<rparr>"

text \<open>
  An environment in which the \<open>n\<close>-th creation attempt returns \<open>cr n\<close> and
  \<open>container.start()\<close> returns \<open>st\<close>; the payload is rendered as its \<open>Name\<close>.
\<close>

definition example_env :: "bool \<Rightarrow> (nat \<Rightarrow> error option) \<Rightarrow> error option \<Rightarrow> env" where
  "example_env tp4 cr st =
     \<lparr>IsTP4 = tp4, filepath_Dir = (\<lambda>p. p), filepath_Split_file = (\<lambda>p. p),
      NameToGuid = (\<lambda>n. Inr n), json_Marshal = (\<lambda>cu. Inr (Name cu)),
      CreateComputeSystem = (\<lambda>n i c. cr n), container_start = (\<lambda>i. st)\<rparr>"

text \<open>A specification like \<open>example_spec\<close> with a network whose port bindings are \<open>bs\<close>.\<close>

definition spec_with_bindings :: "(string \<times> PortBinding list) list \<Rightarrow> Spec" where
  "spec_with_bindings bs =
     example_spec\<lparr>Windows_Networking :=
       Some \<lparr>Bridge = ''nat'', MacAddress = [], PortBindings = bs\<rparr>\<rparr>"

text \<open>A client that knows one container, and a runtime whose three calls all fail.\<close>

definition example_client :: client where
  "example_client = \<lparr>cl_containers = [''c1'' \<mapsto> \<lparr>systemPid = 42\<rparr>]\<rparr>"

definition failing_signal_env :: signal_env where
  "failing_signal_env =
     \<lparr>TerminateComputeSystem = (\<lambda>i. Some (HcsError 5)),
      TerminateProcessInComputeSystem = (\<lambda>i p. Some (HcsError 5)),
      ShutdownComputeSystem = (\<lambda>i. Some (HcsError 5))\<rparr>"

section \<open>Predicates of the properties\<close>

text \<open>Create turns the request down: it returns an error and has called nothing.\<close>

definition rejected :: "env \<Rightarrow> string \<Rightarrow> Spec \<Rightarrow> bool" where
  "rejected ev cid spec =
     (fst (Create ev cid spec) \<noteq> None \<and> snd (Create ev cid spec) = [])"

text \<open>What the inner loop of the port-binding translation lets through.\<close>

definition valid_binding :: "string \<Rightarrow> PortBinding \<Rightarrow> bool" where
  "valid_binding i v2 =
     (HostIP v2 = []
      \<and> (case Atoi (HostPort v2) of Inl err \<Rightarrow> False | Inr ePort \<Rightarrow> 0 \<le> ePort \<and> ePort \<le> 65535)
      \<and> (case Atoi (Port i) of Inl err \<Rightarrow> False | Inr iPort \<Rightarrow> 0 \<le> iPort \<and> iPort \<le> 65535))"

text \<open>The container after the Start or Restore branch has set it running (lines 96 and 97).\<close>

definition started :: "StateInfo \<Rightarrow> Container \<Rightarrow> Container" where
  "started e c =
     (SetRunning (uint (si_Pid e)) (State e = StateStart) c)\<lparr>HasBeenManuallyStopped := False\<rparr>"

text \<open>
  The container after lines 59 to 62 of the Restart branch: \<open>Reset\<close>, then the increment
  of \<open>RestartCount\<close>, then \<open>SetRestarting\<close> on the container so incremented.
\<close>

definition restarted :: "StateInfo \<Rightarrow> Container \<Rightarrow> Container" where
  "restarted e c =
     SetRestarting (platformConstructExitStatus e)
       ((Reset c)\<lparr>RestartCount := RestartCount (Reset c) + 1\<rparr>)"

definition all_restarts :: "(world \<times> StateInfo) list \<Rightarrow> bool" where
  "all_restarts es = list_all (\<lambda>we. State (snd we) = StateRestart) es"

fun is_stdin_copy :: "task \<Rightarrow> bool" where
  "is_stdin_copy (StdinCopy p) = True"
| "is_stdin_copy (OutputCopy r p) = False"

text \<open>The stream configuration AttachStreams works on: the container's if there is one.\<close>

definition stream_of :: "Daemon \<Rightarrow> string \<Rightarrow> sref" where
  "stream_of d cid = (case containers d cid of Some c \<Rightarrow> OfContainer cid | None \<Rightarrow> OfExec cid)"

definition pending_of :: "Daemon \<Rightarrow> sref \<Rightarrow> int option" where
  "pending_of d r = map_option pending (get_stream d r)"

text \<open>The stdout and stderr pipes that are not nil, in this order.\<close>

definition output_pipes :: "IOPipe \<Rightarrow> nat list" where
  "output_pipes iop =
     (case Stdout iop of Some p \<Rightarrow> [p] | None \<Rightarrow> [])
     @ (case Stderr iop of Some p \<Rightarrow> [p] | None \<Rightarrow> [])"

definition stdin_tasks :: "StreamConfig \<Rightarrow> IOPipe \<Rightarrow> task list" where
  "stdin_tasks s iop =
     (if has_stdin s then (case Stdin iop of Some p \<Rightarrow> [StdinCopy p] | None \<Rightarrow> []) else [])"

section \<open>Inputs for the examples of the monitor\<close>

definition example_streams :: StreamConfig where
  "example_streams = \<lparr>has_stdin = False, pending = 0, streams_closed = False\<rparr>"

text \<open>A container without stdin and without a terminal, with one exec session \<open>e1\<close>.\<close>

definition example_container :: Container where
  "example_container =
     \<lparr>c_ID = ''c1'', Running = False, Restarting = False, Paused = False, Pid = 0,
      Initial = False, c_ExitCode = 0, RestartCount = 0, HasBeenManuallyStopped = False,
      ExecCommands = [''e1''], c_StreamConfig = example_streams, Tty = False\<rparr>"

definition example_exec :: ExecConfig where
  "example_exec = \<lparr>ec_ExitCode = None, ec_Running = True, ec_StreamConfig = example_streams\<rparr>"

definition example_daemon :: Daemon where
  "example_daemon =
     \<lparr>containers = [''c1'' \<mapsto> example_container], execConfigs = [''e1'' \<mapsto> example_exec],
      disk = Map.empty, events = [], tasks = []\<rparr>"

text \<open>A world on the platform \<open>os\<close> in which the three fallible calls return \<open>r\<close>.\<close>

definition example_world :: "string \<Rightarrow> error option \<Rightarrow> world" where
  "example_world os r =
     \<lparr>GOOS = os, ToDisk_result = r, CloseStreams_result = r, StartLogging_result = r\<rparr>"

definition example_event :: "state \<Rightarrow> string \<Rightarrow> StateInfo" where
  "example_event s pid = \<lparr>State = s, si_Pid = 1234, si_ExitCode = 1, ProcessID = pid\<rparr>"

text \<open>Three Restart events; \<open>ToDisk\<close> fails at the second.\<close>

definition example_restarts :: "(world \<times> StateInfo) list" where
  "example_restarts =
     [(example_world ''linux'' None, example_event StateRestart []),
      (example_world ''linux'' (Some (ExternalError ''disk full'')),
       example_event StateRestart []),
      (example_world ''linux'' None, example_event StateRestart [])]"

definition example_pipes :: IOPipe where
  "example_pipes = \<lparr>Stdin = Some 0, Stdout = Some 1, Stderr = Some 2\<rparr>"

text \<open>The same container with a stdin source, and the daemon that holds it.\<close>

definition stdin_container :: Container where
  "stdin_container = example_container\<lparr>c_StreamConfig := example_streams\<lparr>has_stdin := True\<rparr>\<rparr>"

definition stdin_daemon :: Daemon where
  "stdin_daemon = put_container ''c1'' stdin_container example_daemon"

section \<open>Properties of Create\<close>

subsection \<open>The example inputs, evaluated\<close>

lemma maxAttempts_unfold: "maxAttempts = Suc (Suc (Suc (Suc (Suc 0))))"
  by (simp add: maxAttempts_def)

lemma ERROR_NOT_FOUND_transient: "ERROR_NOT_FOUND \<in> set transient_codes"
  by (simp add: transient_codes_def)

lemma example_env_sel:
  "IsTP4 (example_env tp4 cr st) = tp4"
  "json_Marshal (example_env tp4 cr st) cu = Inr (Name cu)"
  "CreateComputeSystem (example_env tp4 cr st) n i c = cr n"
  "container_start (example_env tp4 cr st) i = st"
  by (simp_all add: example_env_def)

lemma build_cu_example:
  "build_cu (example_env tp4 cr st) ''c1'' example_spec =
     Inr \<lparr>SystemType = ''Container'', Name = ''c1'', Owner = ''docker'', IsDummy = False,
          VolumePath = ''C:/root'', Devices = [], IgnoreFlushesDuringBoot = False,
          LayerFolderPath = ''C:/layers/top'', Layers = [], ProcessorWeight = 0,
          HostName = ''host'', MappedDirectories = [], SandboxPath = [],
          HvPartition = False\<rparr>"
  by (simp add: build_cu_def example_spec_def example_env_def defaultOwner_def
      mounts_to_mds_def)

subsection \<open>The retry loop\<close>

text \<open>
  One round of the loop: an \<open>HcsError\<close> outside the six codes ends Create with that
  error, one of the six codes is followed by the warning and the sleep of 50 ms, and an
  error that is no \<open>HcsError\<close> is followed by the next round at once.
\<close>

lemma retry_loop_other_code:
  assumes "CreateComputeSystem ev i cid configuration = Some (HcsError code)"
    and "code \<notin> set transient_codes"
  shows "retry_loop (Suc k) ev cid configuration i err tr =
           (Returned (HcsError code), tr @ [CallCreateComputeSystem cid configuration])"
  using assms by simp

lemma retry_loop_transient_code:
  assumes "CreateComputeSystem ev i cid configuration = Some (HcsError code)"
    and "code \<in> set transient_codes"
  shows "retry_loop (Suc k) ev cid configuration i err tr =
           retry_loop k ev cid configuration (Suc i) (Some (HcsError code))
             (tr @ [CallCreateComputeSystem cid configuration,
                    CallWarnf ''Invoking Windows TP4 retry hack (%d of %d)'',
                    CallSleepMs 50])"
  using assms by simp

lemma retry_loop_success:
  assumes "CreateComputeSystem ev i cid configuration = None"
  shows "retry_loop (Suc k) ev cid configuration i err tr =
           (Left None, tr @ [CallCreateComputeSystem cid configuration])"
  using assms by simp

text \<open>
  When every attempt fails with one of the six codes, the loop makes as many attempts as
  it has rounds and is left with the last error in \<open>err\<close>: it does not return.
\<close>

lemma retry_loop_all_transient:
  assumes "\<And>n. \<exists>code \<in> set transient_codes.
              CreateComputeSystem ev n cid configuration = Some (HcsError code)"
  shows "\<exists>tr'. retry_loop (Suc k) ev cid configuration i err tr =
                  (Left (CreateComputeSystem ev (i + k) cid configuration), tr')
               \<and> length (filter is_create tr') = length (filter is_create tr) + Suc k"
proof (induction k arbitrary: i err tr)
  case 0
  from assms [of i] obtain code where c: "code \<in> set transient_codes"
    and r: "CreateComputeSystem ev i cid configuration = Some (HcsError code)" by blast
  then show ?case by simp
next
  case (Suc k)
  from assms [of i] obtain code where c: "code \<in> set transient_codes"
    and r: "CreateComputeSystem ev i cid configuration = Some (HcsError code)" by blast
  from Suc.IH [of "Suc i" "Some (HcsError code)"
      "tr @ [CallCreateComputeSystem cid configuration,
             CallWarnf ''Invoking Windows TP4 retry hack (%d of %d)'', CallSleepMs 50]"]
  obtain tr' where
    "retry_loop (Suc k) ev cid configuration (Suc i) (Some (HcsError code))
       (tr @ [CallCreateComputeSystem cid configuration,
              CallWarnf ''Invoking Windows TP4 retry hack (%d of %d)'', CallSleepMs 50]) =
     (Left (CreateComputeSystem ev (Suc i + k) cid configuration), tr')"
    and "length (filter is_create tr') = length (filter is_create tr) + Suc (Suc k)"
    by auto
  with retry_loop_transient_code [OF r c, of "Suc k" err tr] show ?case
    by auto
qed

subsection \<open>Claim C1\<close>

text \<open>
  C1 says that on the TP4 path, when every creation attempt fails with an error of the
  transient set, Create issues exactly 5 attempts with a 50 ms delay between them and
  then returns the last creation error, and that any error outside the set makes Create
  return at once. The code departs from it. Below, every attempt fails with
  \<open>ERROR_NOT_FOUND\<close> and \<open>container.start()\<close> fails with an error of its own: Create
  makes the five attempts, each followed by the sleep, then goes on to
  \<open>container.start()\<close> for the container that was never created and returns the error
  of the start, after which the deferred function calls \<open>deleteContainer\<close>. The last
  creation error is not what Create returns.
\<close>

theorem Create_tp4_retries_exhausted_goes_on_to_start:
  "Create (example_env True (\<lambda>n. Some (HcsError ERROR_NOT_FOUND))
             (Some (ExternalError ''start failed''))) ''c1'' example_spec =
     (Some (ExternalError ''start failed''),
      [CallCreateComputeSystem ''c1'' ''c1'',
       CallWarnf ''Invoking Windows TP4 retry hack (%d of %d)'', CallSleepMs 50,
       CallCreateComputeSystem ''c1'' ''c1'',
       CallWarnf ''Invoking Windows TP4 retry hack (%d of %d)'', CallSleepMs 50,
       CallCreateComputeSystem ''c1'' ''c1'',
       CallWarnf ''Invoking Windows TP4 retry hack (%d of %d)'', CallSleepMs 50,
       CallCreateComputeSystem ''c1'' ''c1'',
       CallWarnf ''Invoking Windows TP4 retry hack (%d of %d)'', CallSleepMs 50,
       CallCreateComputeSystem ''c1'' ''c1'',
       CallWarnf ''Invoking Windows TP4 retry hack (%d of %d)'', CallSleepMs 50,
       CallContainerStart ''c1'', CallDeleteContainer ''c1''])"
  by (simp add: Create_def build_cu_example example_env_sel maxAttempts_unfold
      ERROR_NOT_FOUND_transient start_container_def)

text \<open>Should \<open>container.start()\<close> return nil there, Create returns nil: success.\<close>

lemma Create_tp4_retries_exhausted_start_succeeds:
  "Create (example_env True (\<lambda>n. Some (HcsError ERROR_NOT_FOUND)) None) ''c1'' example_spec =
     (None,
      [CallCreateComputeSystem ''c1'' ''c1'',
       CallWarnf ''Invoking Windows TP4 retry hack (%d of %d)'', CallSleepMs 50,
       CallCreateComputeSystem ''c1'' ''c1'',
       CallWarnf ''Invoking Windows TP4 retry hack (%d of %d)'', CallSleepMs 50,
       CallCreateComputeSystem ''c1'' ''c1'',
       CallWarnf ''Invoking Windows TP4 retry hack (%d of %d)'', CallSleepMs 50,
       CallCreateComputeSystem ''c1'' ''c1'',
       CallWarnf ''Invoking Windows TP4 retry hack (%d of %d)'', CallSleepMs 50,
       CallCreateComputeSystem ''c1'' ''c1'',
       CallWarnf ''Invoking Windows TP4 retry hack (%d of %d)'', CallSleepMs 50,
       CallContainerStart ''c1'', CallDeleteContainer ''c1''])"
  by (simp add: Create_def build_cu_example example_env_sel maxAttempts_unfold
      ERROR_NOT_FOUND_transient start_container_def)

text \<open>
  An error that is no \<open>HcsError\<close> lies outside the transient set as well, and the loop
  neither returns it nor sleeps: it tries again at once, five times in all.
\<close>

lemma Create_tp4_other_error_retried_without_delay:
  "Create (example_env True (\<lambda>n. Some (ExternalError ''boom'')) None) ''c1'' example_spec =
     (None,
      [CallCreateComputeSystem ''c1'' ''c1'', CallCreateComputeSystem ''c1'' ''c1'',
       CallCreateComputeSystem ''c1'' ''c1'', CallCreateComputeSystem ''c1'' ''c1'',
       CallCreateComputeSystem ''c1'' ''c1'',
       CallContainerStart ''c1'', CallDeleteContainer ''c1''])"
  by (simp add: Create_def build_cu_example example_env_sel maxAttempts_unfold
      start_container_def)

text \<open>
  What does hold on the TP4 path, for every environment and specification that get as
  far as the runtime: with transient failures throughout there are exactly five
  attempts, and what Create returns is what \<open>container.start()\<close> returns.
\<close>

lemma Create_tp4_all_transient:
  assumes "IsTP4 ev" and "build_cu ev cid spec = Inr cu"
    and "json_Marshal ev cu = Inr configuration"
    and "\<And>n. \<exists>code \<in> set transient_codes.
              CreateComputeSystem ev n cid configuration = Some (HcsError code)"
  shows "fst (Create ev cid spec) = container_start ev cid
         \<and> length (filter is_create (snd (Create ev cid spec))) = 5
         \<and> CallDeleteContainer cid \<in> set (snd (Create ev cid spec))"
proof -
  from retry_loop_all_transient [OF assms(4), of 4 0 None "[]"]
  obtain tr' where l: "retry_loop maxAttempts ev cid configuration 0 None [] =
      (Left (CreateComputeSystem ev 4 cid configuration), tr')"
    and n: "length (filter is_create tr') = 5"
    by (auto simp: maxAttempts_def eval_nat_numeral)
  from assms(4) [of 4] obtain code where
    "CreateComputeSystem ev 4 cid configuration = Some (HcsError code)" by blast
  with assms(1-3) l n show ?thesis
    by (simp add: Create_def start_container_def)
qed

subsection \<open>Claim C2\<close>

text \<open>
  C2 says that whenever the creation at the runtime succeeds and \<open>container.start()\<close>
  then fails, \<open>deleteContainer\<close> is called for the id before Create returns the error of
  the start. The code departs from it. Below, the creation succeeds at the first attempt
  and the start fails: Create returns the error of the start and has called
  \<open>CreateComputeSystem\<close> and \<open>container.start()\<close> only. The deferred function tests the
  variable \<open>err\<close> of the creation, which is nil here, not what the start returned.
\<close>

theorem Create_start_failure_without_delete:
  "Create (example_env False (\<lambda>n. None) (Some (ExternalError ''start failed''))) ''c1''
       example_spec =
     (Some (ExternalError ''start failed''),
      [CallCreateComputeSystem ''c1'' ''c1'', CallContainerStart ''c1''])"
  by (simp add: Create_def build_cu_example example_env_sel start_container_def)

text \<open>The same on the TP4 path.\<close>

lemma Create_tp4_start_failure_without_delete:
  "Create (example_env True (\<lambda>n. None) (Some (ExternalError ''start failed''))) ''c1''
       example_spec =
     (Some (ExternalError ''start failed''),
      [CallCreateComputeSystem ''c1'' ''c1'', CallContainerStart ''c1''])"
  by (simp add: Create_def build_cu_example example_env_sel maxAttempts_unfold
      start_container_def)

text \<open>
  For every input: a Create whose creation succeeded at the first attempt never calls
  \<open>deleteContainer\<close>, whatever the start returns.
\<close>

lemma Create_created_never_deletes:
  assumes "build_cu ev cid spec = Inr cu" and "json_Marshal ev cu = Inr configuration"
    and "CreateComputeSystem ev 0 cid configuration = None"
  shows "Create ev cid spec =
           (container_start ev cid,
            [CallCreateComputeSystem cid configuration, CallContainerStart cid])"
  using assms
  by (simp add: Create_def start_container_def maxAttempts_unfold)

subsection \<open>Claim C8\<close>

lemma host_bindings_loop_ok:
  "host_bindings_loop i proto v pbs = Inr out \<Longrightarrow> v2 \<in> set v \<Longrightarrow> valid_binding i v2"
proof (induction v arbitrary: pbs)
  case Nil
  then show ?case by simp
next
  case (Cons a v)
  from Cons.prems(1) have a: "valid_binding i a"
    by (auto simp: valid_binding_def split: if_splits sum.splits)
  from Cons.prems(1) obtain pbs' where "host_bindings_loop i proto v pbs' = Inr out"
    by (auto split: if_splits sum.splits)
  with Cons.IH Cons.prems(2) a show ?case by auto
qed

lemma port_bindings_loop_ok:
  "port_bindings_loop bs pbs = Inr out \<Longrightarrow> (i, v) \<in> set bs \<Longrightarrow>
     (ToUpper (Proto i) = ''TCP'' \<or> ToUpper (Proto i) = ''UDP'') \<and> length v \<le> 1
     \<and> (\<forall>v2 \<in> set v. valid_binding i v2)"
proof (induction bs arbitrary: pbs)
  case Nil
  then show ?case by simp
next
  case (Cons b bs)
  obtain j u where b: "b = (j, u)" by (cases b)
  from Cons.prems(1) b have proto: "ToUpper (Proto j) = ''TCP'' \<or> ToUpper (Proto j) = ''UDP''"
    and len: "length u \<le> 1"
    by (auto simp: Let_def split: if_splits)
  from Cons.prems(1) b proto len obtain pbs' where
    inner: "host_bindings_loop j (ToUpper (Proto j)) u pbs = Inr pbs'"
    and rest: "port_bindings_loop bs pbs' = Inr out"
    by (auto simp: Let_def split: if_splits sum.splits)
  show ?case
  proof (cases "(i, v) = b")
    case True
    with b proto len inner show ?thesis
      by (auto dest: host_bindings_loop_ok)
  next
    case False
    with Cons.prems(2) have "(i, v) \<in> set bs" by simp
    with Cons.IH rest show ?thesis by blast
  qed
qed

lemma build_cu_Inl_rejected: "build_cu ev cid spec = Inl err \<Longrightarrow> rejected ev cid spec"
  by (simp add: rejected_def Create_def)

lemma build_cu_Inr_bindings:
  assumes "build_cu ev cid spec = Inr cu" and "Windows_Networking spec = Some nw"
  shows "\<exists>pbs. port_bindings_loop (PortBindings nw) [] = Inr pbs"
proof (cases "port_bindings_loop (PortBindings nw) []")
  case (Inl err)
  then have "network_device nw = Inl err" by (simp add: network_device_def)
  with assms have False
    by (simp add: build_cu_def Let_def split: option.splits sum.splits)
  then show ?thesis ..
next
  case (Inr pbs)
  then show ?thesis by blast
qed

lemma not_accepted_rejected:
  assumes "Windows_Networking spec = Some nw"
    and "\<And>pbs. port_bindings_loop (PortBindings nw) [] \<noteq> Inr pbs"
  shows "rejected ev cid spec"
proof (cases "build_cu ev cid spec")
  case (Inl err)
  then show ?thesis by (rule build_cu_Inl_rejected)
next
  case (Inr cu)
  from build_cu_Inr_bindings [OF Inr assms(1)] assms(2) show ?thesis by blast
qed

lemma example_bindings_translated:
  "port_bindings_loop [(''80/tcp'', [\<lparr>HostIP = [], HostPort = ''8080''\<rparr>])] [] =
     Inr [\<lparr>Protocol = ''TCP'', InternalPort = 80, ExternalPort = 8080\<rparr>]"
  by code_simp

lemma example_payload:
  "map_sum (\<lambda>err. err) Devices
       (build_cu ev ''c1''
          (spec_with_bindings [(''80/tcp'', [\<lparr>HostIP = [], HostPort = ''8080''\<rparr>])])) =
     Inr [\<lparr>DeviceType = ''Network'',
           Connection = Some \<lparr>NetworkName = ''nat'', EnableNat = False,
                              Nat = \<lparr>nat_Name = ''ContainerNAT'',
                                     nat_PortBindings =
                                       [\<lparr>Protocol = ''TCP'', InternalPort = 80,
                                         ExternalPort = 8080\<rparr>]\<rparr>\<rparr>,
           Settings = None\<rparr>]"
  by (simp add: build_cu_def spec_with_bindings_def example_spec_def network_device_def
      example_bindings_translated defaultContainerNAT_def del: port_bindings_loop.simps)

text \<open>
  C8: for every networking specification passed to Create and every entry \<open>(i, v)\<close> of
  its port bindings, Create rejects the request (it returns an error before any call to
  the runtime) when the protocol of \<open>i\<close>, in upper case, is neither TCP nor UDP; when
  \<open>v\<close> has more than one host port; when a binding of \<open>v\<close> has a host IP; and when the
  host port of a binding of \<open>v\<close> or the container port of \<open>i\<close> is a number outside 0 to
  65535. The single binding of container port \<open>80/tcp\<close> to host port \<open>8080\<close> gives the
  payload one network device whose only port binding is TCP, internal port 80, external
  port 8080.
\<close>

theorem Create_port_binding_validation:
  "(\<forall>nw i v. Windows_Networking spec = Some nw \<and> (i, v) \<in> set (PortBindings nw) \<longrightarrow>
       (ToUpper (Proto i) \<noteq> ''TCP'' \<and> ToUpper (Proto i) \<noteq> ''UDP'' \<longrightarrow> rejected ev cid spec)
     \<and> (1 < length v \<longrightarrow> rejected ev cid spec)
     \<and> (\<forall>v2 \<in> set v.
           (HostIP v2 \<noteq> [] \<longrightarrow> rejected ev cid spec)
         \<and> (\<forall>p. Atoi (HostPort v2) = Inr p \<and> (p < 0 \<or> 65535 < p) \<longrightarrow> rejected ev cid spec)
         \<and> (\<forall>p. Atoi (Port i) = Inr p \<and> (p < 0 \<or> 65535 < p) \<longrightarrow> rejected ev cid spec)))
   \<and> map_sum (\<lambda>err. err) Devices
        (build_cu ev ''c1''
           (spec_with_bindings [(''80/tcp'', [\<lparr>HostIP = [], HostPort = ''8080''\<rparr>])])) =
      Inr [\<lparr>DeviceType = ''Network'',
            Connection = Some \<lparr>NetworkName = ''nat'', EnableNat = False,
                               Nat = \<lparr>nat_Name = ''ContainerNAT'',
                                      nat_PortBindings =
                                        [\<lparr>Protocol = ''TCP'', InternalPort = 80,
                                          ExternalPort = 8080\<rparr>]\<rparr>\<rparr>,
            Settings = None\<rparr>]"
proof (intro conjI allI impI)
  fix nw i v
  assume h: "Windows_Networking spec = Some nw \<and> (i, v) \<in> set (PortBindings nw)"
  then have nw: "Windows_Networking spec = Some nw" and mem: "(i, v) \<in> set (PortBindings nw)"
    by simp_all
  have ok: "\<And>pbs. port_bindings_loop (PortBindings nw) [] = Inr pbs \<Longrightarrow>
      (ToUpper (Proto i) = ''TCP'' \<or> ToUpper (Proto i) = ''UDP'') \<and> length v \<le> 1
      \<and> (\<forall>v2 \<in> set v. valid_binding i v2)"
    using mem by (rule port_bindings_loop_ok [rotated])
  {
    assume "ToUpper (Proto i) \<noteq> ''TCP'' \<and> ToUpper (Proto i) \<noteq> ''UDP''"
    with ok have "\<And>pbs. port_bindings_loop (PortBindings nw) [] \<noteq> Inr pbs" by blast
    with nw show "rejected ev cid spec" by (rule not_accepted_rejected)
  }
  {
    assume "1 < length v"
    with ok have "\<And>pbs. port_bindings_loop (PortBindings nw) [] \<noteq> Inr pbs" by fastforce
    with nw show "rejected ev cid spec" by (rule not_accepted_rejected)
  }
  show "\<forall>v2 \<in> set v.
           (HostIP v2 \<noteq> [] \<longrightarrow> rejected ev cid spec)
         \<and> (\<forall>p. Atoi (HostPort v2) = Inr p \<and> (p < 0 \<or> 65535 < p) \<longrightarrow> rejected ev cid spec)
         \<and> (\<forall>p. Atoi (Port i) = Inr p \<and> (p < 0 \<or> 65535 < p) \<longrightarrow> rejected ev cid spec)"
  proof (intro ballI conjI allI impI)
    fix v2
    assume v2: "v2 \<in> set v"
    {
      assume "HostIP v2 \<noteq> []"
      with ok v2 have "\<And>pbs. port_bindings_loop (PortBindings nw) [] \<noteq> Inr pbs"
        by (fastforce simp: valid_binding_def)
      with nw show "rejected ev cid spec" by (rule not_accepted_rejected)
    }
    {
      fix p
      assume "Atoi (HostPort v2) = Inr p \<and> (p < 0 \<or> 65535 < p)"
      with ok v2 have "\<And>pbs. port_bindings_loop (PortBindings nw) [] \<noteq> Inr pbs"
        by (fastforce simp: valid_binding_def)
      with nw show "rejected ev cid spec" by (rule not_accepted_rejected)
    }
    {
      fix p
      assume "Atoi (Port i) = Inr p \<and> (p < 0 \<or> 65535 < p)"
      with ok v2 have "\<And>pbs. port_bindings_loop (PortBindings nw) [] \<noteq> Inr pbs"
        by (fastforce simp: valid_binding_def)
      with nw show "rejected ev cid spec" by (rule not_accepted_rejected)
    }
  qed
next
  show "map_sum (\<lambda>err. err) Devices
        (build_cu ev ''c1''
           (spec_with_bindings [(''80/tcp'', [\<lparr>HostIP = [], HostPort = ''8080''\<rparr>])])) =
      Inr [\<lparr>DeviceType = ''Network'',
            Connection = Some \<lparr>NetworkName = ''nat'', EnableNat = False,
                               Nat = \<lparr>nat_Name = ''ContainerNAT'',
                                      nat_PortBindings =
                                        [\<lparr>Protocol = ''TCP'', InternalPort = 80,
                                          ExternalPort = 8080\<rparr>]\<rparr>\<rparr>,
            Settings = None\<rparr>]"
    by (rule example_payload)
qed

lemma eval_protos:
  "ToUpper (Proto ''80/icmp'') = ''ICMP''"
  "ToUpper (Proto ''80/tcp'') = ''TCP''"
  by code_simp+

lemma eval_ports:
  "Atoi ''70000'' = Inr 70000"
  "Atoi (Port ''70000/tcp'') = Inr 70000"
  by code_simp+

lemma spec_with_bindings_nw:
  "Windows_Networking (spec_with_bindings bs) =
     Some \<lparr>Bridge = ''nat'', MacAddress = [], PortBindings = bs\<rparr>"
  by (simp add: spec_with_bindings_def)

text \<open>
  Five requests that are turned down: protocol \<open>icmp\<close>, two host ports, a host IP, host
  port 70000, container port 70000.
\<close>

theorem Create_port_binding_validation_witness:
  "ToUpper (Proto ''80/icmp'') \<noteq> ''TCP'' \<and> ToUpper (Proto ''80/icmp'') \<noteq> ''UDP''
   \<and> rejected (example_env False (\<lambda>n. None) None) ''c1''
        (spec_with_bindings [(''80/icmp'', [\<lparr>HostIP = [], HostPort = ''8080''\<rparr>])])
   \<and> rejected (example_env False (\<lambda>n. None) None) ''c1''
        (spec_with_bindings [(''80/tcp'', [\<lparr>HostIP = [], HostPort = ''8080''\<rparr>,
                                          \<lparr>HostIP = [], HostPort = ''8081''\<rparr>])])
   \<and> rejected (example_env False (\<lambda>n. None) None) ''c1''
        (spec_with_bindings [(''80/tcp'', [\<lparr>HostIP = ''10.0.0.1'', HostPort = ''8080''\<rparr>])])
   \<and> Atoi ''70000'' = Inr 70000
   \<and> rejected (example_env False (\<lambda>n. None) None) ''c1''
        (spec_with_bindings [(''80/tcp'', [\<lparr>HostIP = [], HostPort = ''70000''\<rparr>])])
   \<and> Atoi (Port ''70000/tcp'') = Inr 70000
   \<and> rejected (example_env False (\<lambda>n. None) None) ''c1''
        (spec_with_bindings [(''70000/tcp'', [\<lparr>HostIP = [], HostPort = ''8080''\<rparr>])])"
proof -
  note T = Create_port_binding_validation [THEN conjunct1, rule_format, OF conjI]
  note T1 = T [THEN conjunct1, rule_format]
  note T2 = T [THEN conjunct2, THEN conjunct1, rule_format]
  note T3 = T [THEN conjunct2, THEN conjunct2, rule_format]
  note T3a = T3 [THEN conjunct1, rule_format]
  note T3b = T3 [THEN conjunct2, THEN conjunct1, rule_format]
  note T3c = T3 [THEN conjunct2, THEN conjunct2, rule_format]
  have p: "ToUpper (Proto ''80/icmp'') \<noteq> ''TCP'' \<and> ToUpper (Proto ''80/icmp'') \<noteq> ''UDP''"
    by (simp add: eval_protos)
  have m: "\<And>i v. (i, v) \<in> set (PortBindings
              \<lparr>Bridge = ''nat'', MacAddress = [], PortBindings = [(i, v)]\<rparr>)"
    and b: "\<And>b :: PortBinding. b \<in> set [b]"
    by simp_all
  have 1: "rejected (example_env False (\<lambda>n. None) None) ''c1''
        (spec_with_bindings [(''80/icmp'', [\<lparr>HostIP = [], HostPort = ''8080''\<rparr>])])"
    by (rule T1 [OF spec_with_bindings_nw m p])
  have 2: "rejected (example_env False (\<lambda>n. None) None) ''c1''
        (spec_with_bindings [(''80/tcp'', [\<lparr>HostIP = [], HostPort = ''8080''\<rparr>,
                                          \<lparr>HostIP = [], HostPort = ''8081''\<rparr>])])"
    by (rule T2 [OF spec_with_bindings_nw m]) simp
  have 3: "rejected (example_env False (\<lambda>n. None) None) ''c1''
        (spec_with_bindings [(''80/tcp'', [\<lparr>HostIP = ''10.0.0.1'', HostPort = ''8080''\<rparr>])])"
    by (rule T3a [OF spec_with_bindings_nw m b]) simp
  have e4: "Atoi (HostPort \<lparr>HostIP = [], HostPort = ''70000''\<rparr>) = Inr 70000
              \<and> ((70000 :: int) < 0 \<or> 65535 < (70000 :: int))"
    and e5: "Atoi (Port ''70000/tcp'') = Inr 70000
              \<and> ((70000 :: int) < 0 \<or> 65535 < (70000 :: int))"
    by (simp_all add: eval_ports)
  have 4: "rejected (example_env False (\<lambda>n. None) None) ''c1''
        (spec_with_bindings [(''80/tcp'', [\<lparr>HostIP = [], HostPort = ''70000''\<rparr>])])"
    by (rule T3b [OF spec_with_bindings_nw m b e4])
  have 5: "rejected (example_env False (\<lambda>n. None) None) ''c1''
        (spec_with_bindings [(''70000/tcp'', [\<lparr>HostIP = [], HostPort = ''8080''\<rparr>])])"
    by (rule T3c [OF spec_with_bindings_nw m b e5])
  from p 1 2 3 4 5 eval_ports show ?thesis by simp
qed

section \<open>Properties of Signal\<close>

lemma runtime_calls_simps:
  "runtime_calls [] = []"
  "runtime_calls (c # tr) = (if is_log c then runtime_calls tr else c # runtime_calls tr)"
  "runtime_calls (tr @ tr') = runtime_calls tr @ runtime_calls tr'"
  by (simp_all add: runtime_calls_def)

lemma runtime_calls_log_if_failed:
  "is_log l \<Longrightarrow> runtime_calls (log_if_failed r l) = []"
  by (cases r) (simp_all add: log_if_failed_def runtime_calls_def)

text \<open>
  C3: for every call of Signal, an id that is not in the client's table of containers
  gives the NotFound error and no call to the runtime. For an id that is in the table
  Signal returns nil whatever the runtime calls return; with SIGKILL the runtime is
  called once, to terminate the compute system; with any other signal it is called
  twice, to terminate the process \<open>systemPid\<close> and then to shut the compute system down.
\<close>

theorem Signal_lookup_and_calls:
  "(cl_containers c cid = None \<longrightarrow> Signal ev c cid sig = (Some (NotFound cid), []))
   \<and> (\<forall>cont. cl_containers c cid = Some cont \<longrightarrow>
         fst (Signal ev c cid sig) = None
         \<and> (sig = SIGKILL \<longrightarrow>
              runtime_calls (snd (Signal ev c cid sig)) = [CallTerminateComputeSystem cid])
         \<and> (sig \<noteq> SIGKILL \<longrightarrow>
              runtime_calls (snd (Signal ev c cid sig)) =
                [CallTerminateProcessInComputeSystem cid (systemPid cont),
                 CallShutdownComputeSystem cid]))"
  by (simp add: Signal_def getContainer_def runtime_calls_simps runtime_calls_log_if_failed)

text \<open>With a runtime whose calls all fail: an unknown id, signal 15 and signal 9.\<close>

theorem Signal_lookup_and_calls_witness:
  "cl_containers example_client ''c1'' = Some \<lparr>systemPid = 42\<rparr>
   \<and> cl_containers example_client ''c2'' = None
   \<and> Signal failing_signal_env example_client ''c2'' 15 = (Some (NotFound ''c2''), [])
   \<and> fst (Signal failing_signal_env example_client ''c1'' 15) = None
   \<and> (15 :: int) \<noteq> SIGKILL
   \<and> runtime_calls (snd (Signal failing_signal_env example_client ''c1'' 15)) =
        [CallTerminateProcessInComputeSystem ''c1'' 42, CallShutdownComputeSystem ''c1'']
   \<and> fst (Signal failing_signal_env example_client ''c1'' 9) = None
   \<and> (9 :: int) = SIGKILL
   \<and> runtime_calls (snd (Signal failing_signal_env example_client ''c1'' 9)) =
        [CallTerminateComputeSystem ''c1'']"
  using Signal_lookup_and_calls [of example_client "''c1''" failing_signal_env 15]
    Signal_lookup_and_calls [of example_client "''c1''" failing_signal_env 9]
    Signal_lookup_and_calls [of example_client "''c2''" failing_signal_env 15]
  by (simp add: example_client_def SIGKILL_def)

text \<open>The whole trace of signal 15 there: both failures are logged, none is returned.\<close>

lemma Signal_failing_calls_trace:
  "Signal failing_signal_env example_client ''c1'' 15 =
     (None, [CallTerminateProcessInComputeSystem ''c1'' 42,
             CallWarnf ''Failed to terminate pid %d in %s: %q'',
             CallShutdownComputeSystem ''c1'',
             CallErrorf ''Failed to shutdown %s - %q''])"
  by (simp add: Signal_def getContainer_def example_client_def failing_signal_env_def
      SIGKILL_def log_if_failed_def)

section \<open>Properties of StateChanged\<close>

subsection \<open>OOM events\<close>

text \<open>
  C9: for every OOM event, StateChanged on Windows returns an error and leaves the daemon
  as it was; on any other platform, for a container that is in the registry, it logs the
  container event \<open>oom\<close> and returns nil; and in every case the registry, the exec
  sessions, the stored state and the goroutines are what they were: the OOM branch
  changes no container.
\<close>

theorem StateChanged_OOM:
  "State e = StateOOM \<longrightarrow>
     (GOOS w = ''windows'' \<longrightarrow>
        fst (StateChanged w d cid e) \<noteq> None \<and> snd (StateChanged w d cid e) = d)
   \<and> (\<forall>c. GOOS w \<noteq> ''windows'' \<and> containers d cid = Some c \<longrightarrow>
          StateChanged w d cid e = (None, d\<lparr>events := events d @ [EvLogContainerEvent c ''oom'']\<rparr>))
   \<and> containers (snd (StateChanged w d cid e)) = containers d
   \<and> execConfigs (snd (StateChanged w d cid e)) = execConfigs d
   \<and> disk (snd (StateChanged w d cid e)) = disk d
   \<and> tasks (snd (StateChanged w d cid e)) = tasks d"
  by (cases "containers d cid") (simp_all add: StateChanged_def handle_OOM_def emit_def)

text \<open>An OOM event for the container \<open>c1\<close>, on Windows and on Linux.\<close>

theorem StateChanged_OOM_witness:
  "State (example_event StateOOM []) = StateOOM
   \<and> GOOS (example_world ''windows'' None) = ''windows''
   \<and> fst (StateChanged (example_world ''windows'' None) example_daemon ''c1''
            (example_event StateOOM [])) \<noteq> None
   \<and> snd (StateChanged (example_world ''windows'' None) example_daemon ''c1''
            (example_event StateOOM [])) = example_daemon
   \<and> GOOS (example_world ''linux'' None) \<noteq> ''windows''
   \<and> containers example_daemon ''c1'' = Some example_container
   \<and> StateChanged (example_world ''linux'' None) example_daemon ''c1''
        (example_event StateOOM []) =
      (None, example_daemon\<lparr>events := [EvLogContainerEvent example_container ''oom'']\<rparr>)"
  using StateChanged_OOM [of "example_event StateOOM []" "example_world ''windows'' None"
      example_daemon "''c1''"]
    StateChanged_OOM [of "example_event StateOOM []" "example_world ''linux'' None"
      example_daemon "''c1''"]
  by (simp add: example_event_def example_world_def example_daemon_def)

subsection \<open>ExitProcess events\<close>

text \<open>
  C6: for every ExitProcess event of a container in the registry whose process id is not
  in the container's table of exec sessions, StateChanged returns nil and the daemon is
  what it was but for one more effect, the warning: no exit code is recorded, no running
  flag cleared, no stream closed, no entry removed.
\<close>

theorem StateChanged_stale_ExitProcess:
  "containers d cid = Some c \<and> State e = StateExitProcess
     \<and> ProcessID e \<notin> set (ExecCommands c) \<longrightarrow>
   StateChanged w d cid e =
     (None, d\<lparr>events := events d @
        [EvWarnf ''Ignoring StateExitProcess for %v but no exec command found'']\<rparr>)"
  by (simp add: StateChanged_def handle_ExitProcess_def ExecCommands_Get_def emit_def)

text \<open>The container \<open>c1\<close> has the exec session \<open>e1\<close>; the event is for \<open>e2\<close>.\<close>

theorem StateChanged_stale_ExitProcess_witness:
  "containers example_daemon ''c1'' = Some example_container
   \<and> State (example_event StateExitProcess ''e2'') = StateExitProcess
   \<and> ProcessID (example_event StateExitProcess ''e2'') \<notin> set (ExecCommands example_container)
   \<and> StateChanged (example_world ''linux'' None) example_daemon ''c1''
        (example_event StateExitProcess ''e2'') =
      (None, example_daemon\<lparr>events :=
         [EvWarnf ''Ignoring StateExitProcess for %v but no exec command found'']\<rparr>)"
  using StateChanged_stale_ExitProcess [of example_daemon "''c1''" example_container
      "example_event StateExitProcess ''e2''" "example_world ''linux'' None"]
  by (simp add: example_event_def example_daemon_def example_container_def)

text \<open>
  For contrast, the event for \<open>e1\<close>: the exit code is recorded, the running flag
  cleared, the streams closed and the entry removed from the container's table, while the
  object stays in the daemon's store.
\<close>

lemma StateChanged_known_ExitProcess:
  "StateChanged (example_world ''linux'' None) example_daemon ''c1''
        (example_event StateExitProcess ''e1'') =
      (None, example_daemon\<lparr>
         containers := [''c1'' \<mapsto> example_container\<lparr>ExecCommands := []\<rparr>],
         execConfigs := [''e1'' \<mapsto> \<lparr>ec_ExitCode = Some 1, ec_Running = False,
            ec_StreamConfig = example_streams\<lparr>streams_closed := True\<rparr>\<rparr>],
         events := [EvWait ''e1'', EvCloseStreams ''e1'']\<rparr>)"
  by (simp add: StateChanged_def handle_ExitProcess_def ExecCommands_Get_def emit_def
      example_event_def example_daemon_def example_container_def example_world_def
      example_exec_def put_container_def ExecCommands_Delete_def)

subsection \<open>Start and Restore events\<close>

text \<open>
  C5: for every Start or Restore event of a container in the registry, the container
  handed to \<open>ToDisk\<close> is running and has the pid of the event, and StateChanged returns
  what \<open>ToDisk\<close> returns. When \<open>ToDisk\<close> succeeds, the registry and the stored state
  hold this running container. When it fails, the registry holds the container after
  \<open>Reset\<close>, which is not running, and the stored state is what it was. So the container
  is running when StateChanged returns only if the persist succeeded.
\<close>

theorem StateChanged_Start_persist_or_rollback:
  "containers d cid = Some c \<and> (State e = StateStart \<or> State e = StateRestore) \<longrightarrow>
     Running (started e c) \<and> Pid (started e c) = uint (si_Pid e)
   \<and> events (snd (StateChanged w d cid e)) = events d @ [EvToDisk (started e c)]
   \<and> fst (StateChanged w d cid e) = ToDisk_result w
   \<and> (ToDisk_result w = None \<longrightarrow>
        containers (snd (StateChanged w d cid e)) cid = Some (started e c)
        \<and> disk (snd (StateChanged w d cid e)) (c_ID c) = Some (started e c))
   \<and> (ToDisk_result w \<noteq> None \<longrightarrow>
        containers (snd (StateChanged w d cid e)) cid = Some (Reset (started e c))
        \<and> \<not> Running (Reset (started e c))
        \<and> disk (snd (StateChanged w d cid e)) = disk d)
   \<and> (map_option Running (containers (snd (StateChanged w d cid e)) cid) = Some True \<longrightarrow>
        ToDisk_result w = None)"
  by (cases "ToDisk_result w")
    (auto simp: StateChanged_def handle_Start_def ToDisk_def put_container_def started_def
      SetRunning_def Reset_def Let_def)

text \<open>A Start event with pid 1234 for \<open>c1\<close>, with a failing and with a working disk.\<close>

theorem StateChanged_Start_persist_or_rollback_witness:
  "containers example_daemon ''c1'' = Some example_container
   \<and> State (example_event StateStart []) = StateStart
   \<and> ToDisk_result (example_world ''linux'' (Some (ExternalError ''disk full''))) \<noteq> None
   \<and> fst (StateChanged (example_world ''linux'' (Some (ExternalError ''disk full'')))
            example_daemon ''c1'' (example_event StateStart [])) =
        Some (ExternalError ''disk full'')
   \<and> map_option Running
        (containers (snd (StateChanged (example_world ''linux'' (Some (ExternalError ''disk full'')))
            example_daemon ''c1'' (example_event StateStart []))) ''c1'') = Some False
   \<and> ToDisk_result (example_world ''linux'' None) = None
   \<and> fst (StateChanged (example_world ''linux'' None) example_daemon ''c1''
            (example_event StateStart [])) = None
   \<and> map_option Running
        (containers (snd (StateChanged (example_world ''linux'' None) example_daemon ''c1''
            (example_event StateStart []))) ''c1'') = Some True
   \<and> map_option Pid
        (disk (snd (StateChanged (example_world ''linux'' None) example_daemon ''c1''
            (example_event StateStart []))) ''c1'') = Some 1234"
  using StateChanged_Start_persist_or_rollback [of example_daemon "''c1''" example_container
      "example_event StateStart []" "example_world ''linux'' (Some (ExternalError ''disk full''))"]
    StateChanged_Start_persist_or_rollback [of example_daemon "''c1''" example_container
      "example_event StateStart []" "example_world ''linux'' None"]
  by (simp add: example_daemon_def example_container_def example_event_def example_world_def
      started_def SetRunning_def Reset_def)

subsection \<open>Restart events\<close>

lemma restarted_fields:
  "RestartCount (restarted e c) = RestartCount c + 1"
  "Restarting (restarted e c)"
  "c_ID (restarted e c) = c_ID c"
  by (simp_all add: restarted_def SetRestarting_def Reset_def)

text \<open>One Restart event, whatever \<open>ToDisk\<close> returns.\<close>

lemma restart_step:
  assumes "containers d cid = Some c" and "State e = StateRestart"
  shows "StateChanged w d cid e =
           (ToDisk_result w,
            d\<lparr>containers := (containers d)(cid \<mapsto> restarted e c),
              disk := (if ToDisk_result w = None then (disk d)(c_ID c \<mapsto> restarted e c)
                       else disk d),
              events := events d @
                [EvLogContainerEventWithAttributes (restarted e c) ''die'' (die_attributes e),
                 EvToDisk (restarted e c)]\<rparr>)"
  using assms
  by (cases "ToDisk_result w")
    (simp_all add: StateChanged_def handle_Restart_def ToDisk_def put_container_def emit_def
      restarted_def Let_def restarted_fields SetRestarting_def Reset_def)

lemma deliver_append: "deliver d cid (xs @ ys) = deliver (deliver d cid xs) cid ys"
  by (induction xs arbitrary: d) auto

lemma deliver_restarts_count:
  assumes "all_restarts es" and "containers d cid = Some c"
  shows "\<exists>c'. containers (deliver d cid es) cid = Some c'
           \<and> RestartCount c' = RestartCount c + of_nat (length es) \<and> c_ID c' = c_ID c"
  using assms
proof (induction es arbitrary: d c)
  case Nil
  then show ?case by simp
next
  case (Cons we es)
  obtain w e where we: "we = (w, e)" by (cases we)
  from Cons.prems(1) we have e: "State e = StateRestart" and rest: "all_restarts es"
    by (simp_all add: all_restarts_def)
  let ?d1 = "snd (StateChanged w d cid e)"
  from restart_step [OF Cons.prems(2) e, of w]
  have c1: "containers ?d1 cid = Some (restarted e c)" by simp
  from Cons.IH [OF rest c1] obtain c' where
    "containers (deliver ?d1 cid es) cid = Some c'"
    "RestartCount c' = RestartCount (restarted e c) + of_nat (length es)"
    "c_ID c' = c_ID (restarted e c)" by blast
  with we show ?case by (simp add: restarted_fields)
qed

lemma sint_count: "k < 2 ^ 63 \<Longrightarrow> sint (of_nat k :: 64 word) = int k"
  by (simp add: signed_of_nat signed_take_bit_int_eq_self)

text \<open>
  C4: for every sequence \<open>es\<close> of Restart events handled by StateChanged for the
  container under \<open>cid\<close>, whose restart count starts at 0, and every \<open>k = j + 1\<close> up to
  the length of \<open>es\<close>: the \<open>k\<close>-th call turns the container \<open>cprev\<close> it finds into
  \<open>ck\<close>, which is \<open>cprev\<close> after \<open>Reset\<close>, the increment and then \<open>SetRestarting\<close>; \<open>ck\<close>
  has restart count \<open>k\<close> and is restarting; the call logs \<open>die\<close> for \<open>ck\<close> and hands
  \<open>ck\<close> to \<open>ToDisk\<close>, so what is persisted at the \<open>k\<close>-th event carries the count
  \<open>k\<close>; and when that \<open>ToDisk\<close> succeeds the stored state is \<open>ck\<close>. The count is a Go
  \<open>int\<close> of 64 bits: read as a signed number it is \<open>k\<close> for every \<open>k\<close> below \<open>2 ^ 63\<close>.
\<close>

theorem Restart_count_persisted:
  assumes "all_restarts es" and "containers d cid = Some c" and "RestartCount c = 0"
    and "j < length es"
  shows "\<exists>cprev ck.
           containers (deliver d cid (take j es)) cid = Some cprev
         \<and> ck = restarted (snd (es ! j)) cprev
         \<and> containers (deliver d cid (take (Suc j) es)) cid = Some ck
         \<and> RestartCount ck = of_nat (Suc j) \<and> Restarting ck
         \<and> (Suc j < 2 ^ 63 \<longrightarrow> sint (RestartCount ck) = int (Suc j))
         \<and> events (deliver d cid (take (Suc j) es)) =
             events (deliver d cid (take j es)) @
               [EvLogContainerEventWithAttributes ck ''die'' (die_attributes (snd (es ! j))),
                EvToDisk ck]
         \<and> (ToDisk_result (fst (es ! j)) = None \<longrightarrow>
              disk (deliver d cid (take (Suc j) es)) (c_ID c) = Some ck)"
proof -
  let ?pre = "take j es"
  obtain w e where we: "es ! j = (w, e)" by (cases "es ! j")
  from assms(4) we have split: "take (Suc j) es = ?pre @ [(w, e)]"
    by (simp add: take_Suc_conv_app_nth)
  from assms(1) have pre: "all_restarts ?pre"
    by (simp add: all_restarts_def list_all_iff) (meson in_set_takeD)
  from assms(1,4) we have e: "State e = StateRestart"
    by (auto simp: all_restarts_def list_all_length dest!: spec [of _ j])
  have len: "length ?pre = j"
    using assms(4) by simp
  from deliver_restarts_count [OF pre assms(2)] obtain cprev where
    cprev: "containers (deliver d cid ?pre) cid = Some cprev"
    and cnt0: "RestartCount cprev = RestartCount c + of_nat (length ?pre)"
    and cid: "c_ID cprev = c_ID c"
    by blast
  let ?ck = "restarted e cprev"
  from cnt0 have k: "RestartCount ?ck = of_nat (Suc j)"
    unfolding len assms(3) by (simp add: restarted_fields)
  have step: "deliver d cid (take (Suc j) es) = snd (StateChanged w (deliver d cid ?pre) cid e)"
    by (simp add: split deliver_append)
  from k have s: "Suc j < 2 ^ 63 \<Longrightarrow> sint (RestartCount ?ck) = int (Suc j)"
    by (simp only: sint_count)
  show ?thesis
    by (rule exI [where x = cprev], rule exI [where x = ?ck], insert cprev k cid we s)
      (simp add: step restart_step [OF cprev e] restarted_fields)
qed

lemma example_restart_facts:
  "all_restarts example_restarts"
  "containers example_daemon ''c1'' = Some example_container"
  "RestartCount example_container = 0"
  "length example_restarts = 3"
  by (simp_all add: all_restarts_def example_restarts_def example_event_def
      example_daemon_def example_container_def)

text \<open>
  Three Restart events for \<open>c1\<close>, at the third: the count in the registry and the stored
  count are 3, and the stored container is restarting.
\<close>

theorem Restart_count_persisted_witness:
  "all_restarts example_restarts
   \<and> containers example_daemon ''c1'' = Some example_container
   \<and> RestartCount example_container = 0
   \<and> (2 :: nat) < length example_restarts
   \<and> ToDisk_result (fst (example_restarts ! 2)) = None
   \<and> map_option RestartCount
        (containers (deliver example_daemon ''c1'' (take 3 example_restarts)) ''c1'') = Some 3
   \<and> map_option RestartCount
        (disk (deliver example_daemon ''c1'' (take 3 example_restarts)) ''c1'') = Some 3
   \<and> map_option Restarting
        (disk (deliver example_daemon ''c1'' (take 3 example_restarts)) ''c1'') = Some True"
proof -
  have j: "(2 :: nat) < length example_restarts"
    by (simp add: example_restart_facts)
  have ok: "ToDisk_result (fst (example_restarts ! 2)) = None"
    by (simp add: example_restarts_def example_world_def)
  have id: "c_ID example_container = ''c1''"
    by (simp add: example_container_def)
  from Restart_count_persisted [OF example_restart_facts(1-3) j] ok id
  show ?thesis
    using example_restart_facts j by (auto simp: numeral_3_eq_3)
qed

text \<open>
  At the second of the three events \<open>ToDisk\<close> fails: the count in the registry is 2, the
  stored count is still the 1 of the first event.
\<close>

lemma example_restarts_failed_persist:
  "map_option RestartCount
     (containers (deliver example_daemon ''c1'' (take 2 example_restarts)) ''c1'') = Some 2"
  "map_option RestartCount
     (disk (deliver example_daemon ''c1'' (take 2 example_restarts)) ''c1'') = Some 1"
  by (simp_all add: example_restarts_def example_event_def example_world_def
      example_daemon_def example_container_def StateChanged_def handle_Restart_def
      ToDisk_def put_container_def emit_def Let_def SetRestarting_def Reset_def
      numeral_2_eq_2)

section \<open>Properties of AttachStreams\<close>

subsection \<open>The four ways through AttachStreams\<close>

lemma AttachStreams_container_ok:
  assumes "containers d cid = Some c" and "StartLogging_result w = None"
  shows "AttachStreams w d cid iop =
           (None, wire_outputs (OfContainer cid) iop
                    (wire_stdin (c_StreamConfig c) (Some c) iop (emit [EvStartLogging c] d)))"
  using assms by (simp add: AttachStreams_def Let_def)

lemma AttachStreams_container_failed:
  assumes "containers d cid = Some c" and "StartLogging_result w = Some err"
  shows "AttachStreams w d cid iop =
           (Some err, put_container cid (Reset c) (emit [EvStartLogging c] d))"
  using assms by (simp add: AttachStreams_def Let_def)

lemma AttachStreams_exec_ok:
  assumes "containers d cid = None" and "execConfigs d cid = Some ec"
  shows "AttachStreams w d cid iop =
           (None, wire_outputs (OfExec cid) iop (wire_stdin (ec_StreamConfig ec) None iop d))"
  using assms by (simp add: AttachStreams_def getExecConfig_def)

lemma AttachStreams_unknown:
  assumes "containers d cid = None" and "execConfigs d cid = None"
  shows "AttachStreams w d cid iop =
           (Some (Errorf ''no such exec/container: %s'' [ArgStr cid]), d)"
  using assms by (simp add: AttachStreams_def getExecConfig_def)

subsection \<open>The stdin pipe\<close>

lemma wire_outputs_events: "events (wire_outputs r iop d) = events d"
  by (cases r)
    (auto simp: wire_outputs_def copy_stream_def spawn_def stream_Add_def put_container_def
      Let_def split: option.splits)

lemma wire_outputs_stdin_tasks:
  "filter is_stdin_copy (tasks (wire_outputs r iop d)) = filter is_stdin_copy (tasks d)"
  by (cases r)
    (auto simp: wire_outputs_def copy_stream_def spawn_def stream_Add_def put_container_def
      Let_def split: option.splits)

text \<open>
  C7, as it is stated, fails: it speaks of every call of AttachStreams on a container
  without stdin source. The container \<open>c1\<close> has no stdin source and no terminal, and the
  runtime provides the stdin pipe 0; \<open>StartLogging\<close> fails, AttachStreams returns its
  error at line 136, and the pipe has not been closed.
\<close>

theorem AttachStreams_logging_failure_leaves_stdin_open:
  "containers example_daemon ''c1'' = Some example_container
   \<and> \<not> has_stdin (c_StreamConfig example_container) \<and> \<not> Tty example_container
   \<and> Stdin example_pipes = Some 0
   \<and> fst (AttachStreams (example_world ''linux'' (Some (ExternalError ''no log driver'')))
             example_daemon ''c1'' example_pipes) = Some (ExternalError ''no log driver'')
   \<and> \<not> pipe_closed (snd (AttachStreams
             (example_world ''linux'' (Some (ExternalError ''no log driver'')))
             example_daemon ''c1'' example_pipes)) 0"
  by (simp add: AttachStreams_def example_daemon_def example_container_def example_world_def
      example_pipes_def example_streams_def emit_def put_container_def pipe_closed_def
      Reset_def)

text \<open>
  C7, amended: for every call of AttachStreams on a container without stdin source for
  which \<open>StartLogging\<close> succeeds, AttachStreams returns nil and starts no goroutine for
  stdin; if the container has no terminal, a stdin pipe of the runtime is closed before
  AttachStreams returns (the close is the last of its own effects, after the start of
  logging); if the container has a terminal, AttachStreams closes no pipe.
\<close>

theorem AttachStreams_stdin_policy:
  "containers d cid = Some c \<and> \<not> has_stdin (c_StreamConfig c)
     \<and> StartLogging_result w = None \<longrightarrow>
     fst (AttachStreams w d cid iop) = None
   \<and> filter is_stdin_copy (tasks (snd (AttachStreams w d cid iop))) =
       filter is_stdin_copy (tasks d)
   \<and> (\<forall>p. \<not> Tty c \<and> Stdin iop = Some p \<longrightarrow>
         events (snd (AttachStreams w d cid iop)) =
           events d @ [EvStartLogging c, EvPipeClose p]
         \<and> pipe_closed (snd (AttachStreams w d cid iop)) p)
   \<and> (Tty c \<longrightarrow>
         events (snd (AttachStreams w d cid iop)) = events d @ [EvStartLogging c]
         \<and> (\<forall>p. pipe_closed (snd (AttachStreams w d cid iop)) p = pipe_closed d p))"
  by (auto simp: AttachStreams_container_ok wire_outputs_events wire_outputs_stdin_tasks
      wire_stdin_def emit_def pipe_closed_def split: option.splits)

text \<open>The container \<open>c1\<close> without a terminal, and the same container with one.\<close>

theorem AttachStreams_stdin_policy_witness:
  "containers example_daemon ''c1'' = Some example_container
   \<and> \<not> has_stdin (c_StreamConfig example_container)
   \<and> StartLogging_result (example_world ''linux'' None) = None
   \<and> \<not> Tty example_container \<and> Stdin example_pipes = Some 0
   \<and> fst (AttachStreams (example_world ''linux'' None) example_daemon ''c1'' example_pipes)
       = None
   \<and> pipe_closed (snd (AttachStreams (example_world ''linux'' None) example_daemon ''c1''
         example_pipes)) 0
   \<and> containers (put_container ''c1'' (example_container\<lparr>Tty := True\<rparr>) example_daemon) ''c1''
       = Some (example_container\<lparr>Tty := True\<rparr>)
   \<and> Tty (example_container\<lparr>Tty := True\<rparr>)
   \<and> \<not> pipe_closed (snd (AttachStreams (example_world ''linux'' None)
         (put_container ''c1'' (example_container\<lparr>Tty := True\<rparr>) example_daemon) ''c1''
         example_pipes)) 0"
  using AttachStreams_stdin_policy [of example_daemon "''c1''" example_container
      "example_world ''linux'' None" example_pipes]
    AttachStreams_stdin_policy [of
      "put_container ''c1'' (example_container\<lparr>Tty := True\<rparr>) example_daemon" "''c1''"
      "example_container\<lparr>Tty := True\<rparr>" "example_world ''linux'' None" example_pipes]
  by (simp add: example_daemon_def example_container_def example_world_def example_pipes_def
      example_streams_def put_container_def pipe_closed_def)

subsection \<open>The counter of pending copies\<close>

lemma get_stream_emit: "get_stream (emit es d) r = get_stream d r"
  by (simp add: get_stream_def emit_def split: sref.splits)

lemma get_stream_spawn: "get_stream (spawn t d) r = get_stream d r"
  by (simp add: get_stream_def spawn_def split: sref.splits)

lemma get_stream_tasks_update: "get_stream (d\<lparr>tasks := ts\<rparr>) r = get_stream d r"
  by (simp add: get_stream_def split: sref.splits)

lemma get_stream_stream_Add:
  "get_stream (stream_Add r n d) r =
     map_option (\<lambda>s. s\<lparr>pending := pending s + n\<rparr>) (get_stream d r)"
  by (cases r)
    (auto simp: get_stream_def stream_Add_def put_container_def split: option.splits)

lemma pending_wire_stdin: "pending_of (wire_stdin s c iop d) r = pending_of d r"
  by (simp add: pending_of_def wire_stdin_def get_stream_emit get_stream_spawn
      split: option.splits)

lemma tasks_wire_stdin:
  "tasks (wire_stdin s c iop d) = tasks d @ stdin_tasks s iop"
  by (simp add: wire_stdin_def stdin_tasks_def spawn_def emit_def split: option.splits)

lemma pending_copy_stream:
  "pending_of (copy_stream r p d) r = map_option (\<lambda>k. k + 1) (pending_of d r)"
  by (simp add: copy_stream_def pending_of_def get_stream_spawn get_stream_stream_Add
      option.map_comp comp_def)

lemma tasks_stream_Add: "tasks (stream_Add r n d) = tasks d"
  by (cases r) (auto simp: stream_Add_def put_container_def split: option.splits)

lemma tasks_copy_stream: "tasks (copy_stream r p d) = tasks d @ [OutputCopy r p]"
  by (simp add: copy_stream_def spawn_def tasks_stream_Add)

lemma wire_outputs_pending:
  "pending_of (wire_outputs r iop d) r =
     map_option (\<lambda>k. k + int (length (output_pipes iop))) (pending_of d r)"
  by (cases "pending_of d r")
    (simp_all add: wire_outputs_def output_pipes_def pending_copy_stream Let_def
      split: option.splits)

lemma wire_outputs_tasks:
  "tasks (wire_outputs r iop d) = tasks d @ map (OutputCopy r) (output_pipes iop)"
  by (simp add: wire_outputs_def output_pipes_def tasks_copy_stream Let_def
      split: option.splits)

lemma finish_stdin_pending:
  "finish copy_err (StdinCopy p) d = Inr d' \<Longrightarrow> pending_of d' r = pending_of d r"
  by (auto simp: finish_def pending_of_def get_stream_emit get_stream_tasks_update)

lemma finish_output_pending:
  "finish copy_err (OutputCopy r p) d = Inr d' \<Longrightarrow>
     pending_of d' r = map_option (\<lambda>k. k - 1) (pending_of d r)"
  by (auto simp: finish_def pending_of_def get_stream_stream_Add get_stream_emit
      get_stream_tasks_update split: option.splits if_splits)

lemma tasks_emit: "tasks (emit es d) = tasks d"
  by (simp add: emit_def)

lemma pending_put_Reset:
  "containers d cid = Some c \<Longrightarrow>
     pending_of (put_container cid (Reset c) (emit es d)) r = pending_of d r"
  by (cases r) (auto simp: pending_of_def get_stream_def put_container_def emit_def Reset_def)

text \<open>
  C10, as it is stated, fails: the runtime provides a stdout and a stderr pipe for the
  container \<open>c1\<close>, \<open>StartLogging\<close> fails, and AttachStreams returns without having
  incremented the counter or started a copy.
\<close>

theorem AttachStreams_logging_failure_counts_nothing:
  "Stdout example_pipes = Some 1 \<and> Stderr example_pipes = Some 2
   \<and> pending_of example_daemon (OfContainer ''c1'') = Some 0
   \<and> fst (AttachStreams (example_world ''linux'' (Some (ExternalError ''no log driver'')))
             example_daemon ''c1'' example_pipes) = Some (ExternalError ''no log driver'')
   \<and> pending_of (snd (AttachStreams
             (example_world ''linux'' (Some (ExternalError ''no log driver'')))
             example_daemon ''c1'' example_pipes)) (OfContainer ''c1'') = Some 0
   \<and> tasks (snd (AttachStreams
             (example_world ''linux'' (Some (ExternalError ''no log driver'')))
             example_daemon ''c1'' example_pipes)) = []"
  by (simp add: AttachStreams_def example_daemon_def example_container_def example_world_def
      example_pipes_def example_streams_def emit_def put_container_def pending_of_def
      get_stream_def Reset_def)

text \<open>
  C10, amended: when AttachStreams returns nil, the counter of the stream configuration
  it works on has grown by the number of stdout and stderr pipes that are not nil, one
  output copy has been started for each of them, and the stdin copy, if one has been
  started, has added nothing to the counter. When AttachStreams returns an error, no
  counter has changed. A stdin copy that finishes leaves every counter as it is; an
  output copy that finishes takes one off the counter of its stream configuration. So a
  counter at zero says nothing about the stdin copy.
\<close>

theorem AttachStreams_pending_counter:
  "(fst (AttachStreams w d cid iop) = None \<longrightarrow>
      (\<exists>s. get_stream d (stream_of d cid) = Some s
         \<and> pending_of (snd (AttachStreams w d cid iop)) (stream_of d cid) =
             Some (pending s + int (length (output_pipes iop)))
         \<and> tasks (snd (AttachStreams w d cid iop)) =
             tasks d @ stdin_tasks s iop
               @ map (OutputCopy (stream_of d cid)) (output_pipes iop)))
   \<and> (fst (AttachStreams w d cid iop) \<noteq> None \<longrightarrow>
        pending_of (snd (AttachStreams w d cid iop)) r = pending_of d r)
   \<and> (\<forall>copy_err p d1. finish copy_err (StdinCopy p) d = Inr d1 \<longrightarrow>
         pending_of d1 r = pending_of d r)
   \<and> (\<forall>copy_err p d1. finish copy_err (OutputCopy r p) d = Inr d1 \<longrightarrow>
         pending_of d1 r = map_option (\<lambda>k. k - 1) (pending_of d r))"
proof (intro conjI impI allI)
  assume ok: "fst (AttachStreams w d cid iop) = None"
  show "\<exists>s. get_stream d (stream_of d cid) = Some s
         \<and> pending_of (snd (AttachStreams w d cid iop)) (stream_of d cid) =
             Some (pending s + int (length (output_pipes iop)))
         \<and> tasks (snd (AttachStreams w d cid iop)) =
             tasks d @ stdin_tasks s iop
               @ map (OutputCopy (stream_of d cid)) (output_pipes iop)"
  proof (cases "containers d cid")
    case None
    show ?thesis
    proof (cases "execConfigs d cid")
      case n: None
      with None ok show ?thesis by (simp add: AttachStreams_unknown)
    next
      case (Some ec)
      have r: "stream_of d cid = OfExec cid" using None by (simp add: stream_of_def)
      have g: "get_stream d (OfExec cid) = Some (ec_StreamConfig ec)"
        using Some by (simp add: get_stream_def)
      have e: "pending_of d (OfExec cid) = Some (pending (ec_StreamConfig ec))"
        by (simp add: pending_of_def g)
      show ?thesis
        unfolding r AttachStreams_exec_ok [OF None Some]
        by (rule exI [where x = "ec_StreamConfig ec"])
          (simp add: g e wire_outputs_pending wire_outputs_tasks pending_wire_stdin
            tasks_wire_stdin)
    qed
  next
    case (Some c)
    from ok Some have l: "StartLogging_result w = None"
      by (cases "StartLogging_result w") (simp_all add: AttachStreams_container_failed)
    have r: "stream_of d cid = OfContainer cid" using Some by (simp add: stream_of_def)
    have g: "get_stream d (OfContainer cid) = Some (c_StreamConfig c)"
      using Some by (simp add: get_stream_def)
    have e: "pending_of (emit [EvStartLogging c] d) (OfContainer cid) =
               Some (pending (c_StreamConfig c))"
      by (simp add: pending_of_def get_stream_emit g)
    show ?thesis
      unfolding r AttachStreams_container_ok [OF Some l]
      by (rule exI [where x = "c_StreamConfig c"])
        (simp add: g e wire_outputs_pending wire_outputs_tasks pending_wire_stdin
          tasks_wire_stdin tasks_emit)
  qed
next
  assume failed: "fst (AttachStreams w d cid iop) \<noteq> None"
  show "pending_of (snd (AttachStreams w d cid iop)) r = pending_of d r"
  proof (cases "containers d cid")
    case None
    with failed show ?thesis
      by (cases "execConfigs d cid") (simp_all add: AttachStreams_unknown AttachStreams_exec_ok)
  next
    case (Some c)
    with failed show ?thesis
      by (cases "StartLogging_result w")
        (simp_all add: AttachStreams_container_ok AttachStreams_container_failed
          pending_put_Reset)
  qed
next
  fix copy_err p d1
  assume "finish copy_err (StdinCopy p) d = Inr d1"
  then show "pending_of d1 r = pending_of d r" by (rule finish_stdin_pending)
next
  fix copy_err p d1
  assume "finish copy_err (OutputCopy r p) d = Inr d1"
  then show "pending_of d1 r = map_option (\<lambda>k. k - 1) (pending_of d r)"
    by (rule finish_output_pending)
qed

text \<open>
  The container \<open>c1\<close> with a stdin source and all three pipes: the counter goes from 0
  to 2 and three goroutines run; when the two output copies have finished the counter is
  back at 0 and the stdin copy is still running.
\<close>

theorem AttachStreams_pending_counter_witness:
  "fst (AttachStreams (example_world ''linux'' None) stdin_daemon ''c1'' example_pipes) = None
   \<and> pending_of stdin_daemon (OfContainer ''c1'') = Some 0
   \<and> pending_of (snd (AttachStreams (example_world ''linux'' None) stdin_daemon ''c1''
         example_pipes)) (OfContainer ''c1'') = Some 2
   \<and> tasks (snd (AttachStreams (example_world ''linux'' None) stdin_daemon ''c1''
         example_pipes)) =
       [StdinCopy 0, OutputCopy (OfContainer ''c1'') 1, OutputCopy (OfContainer ''c1'') 2]
   \<and> (case finish None (OutputCopy (OfContainer ''c1'') 1)
              (snd (AttachStreams (example_world ''linux'' None) stdin_daemon ''c1''
                 example_pipes)) of
         Inl err \<Rightarrow> False
       | Inr d1 \<Rightarrow>
          (case finish None (OutputCopy (OfContainer ''c1'') 2) d1 of
             Inl err \<Rightarrow> False
           | Inr d2 \<Rightarrow>
               pending_of d2 (OfContainer ''c1'') = Some 0 \<and> tasks d2 = [StdinCopy 0]))"
  using AttachStreams_pending_counter [of "example_world ''linux'' None" stdin_daemon "''c1''"
      example_pipes "OfContainer ''c1''"]
  by (simp add: AttachStreams_def stdin_daemon_def stdin_container_def example_daemon_def
      example_container_def example_streams_def example_world_def example_pipes_def
      put_container_def emit_def wire_stdin_def wire_outputs_def copy_stream_def spawn_def
      stream_Add_def pending_of_def get_stream_def finish_def Let_def)

end
